theory Spec2Isabelle
  imports Complex_Main "HOL-Library.Sublist" "HOL-Library.Char_ord" "HOL-Library.List_Lexorder"
begin

section \<open>Data model\<close>

text \<open>
  Identifiers are the UUID strings of the TypeScript interfaces. Timestamps
  (\<^verbatim>\<open>TIMESTAMP WITH TIME ZONE\<close>) are points on the integer time line.
  Quantities are the \<^verbatim>\<open>INTEGER\<close> columns of the migrations, prices the
  \<^verbatim>\<open>DECIMAL(10, 2)\<close> columns: a record holds the integer or the decimal that was
  read or typed. Where the program computes with prices (the order total), the values are
  the doubles JavaScript holds for them and the arithmetic is that of doubles.
\<close>

type_synonym uuid = string
type_synonym timestamptz = int

text \<open>The embedded \<^verbatim>\<open>supplier:suppliers(id, company_name)\<close> of an item query.\<close>

record supplier_ref =
  ref_id :: uuid
  ref_company_name :: string

text \<open>A row of \<^verbatim>\<open>inventory_items\<close> (migration 20260131234905).\<close>

record inventory_item =
  inv_id :: uuid
  inv_workspace_id :: uuid
  inv_supplier_id :: "uuid option"
  inv_name :: string
  inv_sku :: "string option"
  inv_description :: "string option"
  inv_quantity :: int
  inv_min_quantity :: int
  inv_unit_price :: "rat option"
  inv_created_at :: timestamptz
  inv_updated_at :: timestamptz

text \<open>\<^verbatim>\<open>interface InventoryItem\<close> of inventoryService.ts: the row and the optional join.\<close>

record InventoryItem = inventory_item +
  inv_supplier :: "supplier_ref option"

text \<open>\<^verbatim>\<open>interface OrderItem\<close> of PurchaseOrderModal.tsx.\<close>

record OrderItem =
  oi_inventory_item_id :: "uuid option"
  oi_item_name :: string
  oi_quantity :: int
  oi_unit_price :: "rat option"

text \<open>workspaceService.ts and the first migration (part_000).\<close>

datatype WorkspaceRole = Admin | Member

record Workspace =
  w_id :: uuid
  w_name :: string
  w_created_by :: "uuid option"
  w_created_at :: timestamptz
  w_updated_at :: timestamptz

text \<open>A row of \<^verbatim>\<open>workspace_members\<close>; the joined profile is not a column.\<close>

record WorkspaceMember =
  m_id :: uuid
  m_workspace_id :: uuid
  m_user_id :: uuid
  m_role :: WorkspaceRole
  m_joined_at :: timestamptz

record WorkspaceInvitation =
  wi_id :: uuid
  wi_workspace_id :: uuid
  wi_email :: string
  wi_role :: WorkspaceRole
  wi_invited_by :: "uuid option"
  wi_created_at :: timestamptz
  wi_expires_at :: timestamptz

text \<open>supplierService.ts, purchaseOrderService.ts and the second migration.\<close>

record Supplier =
  s_id :: uuid
  s_workspace_id :: uuid
  s_company_name :: string
  s_email :: "string option"
  s_phone :: "string option"
  s_website :: "string option"
  s_address :: "string option"
  s_created_at :: timestamptz
  s_updated_at :: timestamptz

datatype PurchaseOrderStatus = Draft | Submitted | Approved | Ordered | Received | Cancelled

record PurchaseOrder =
  po_id :: uuid
  po_workspace_id :: uuid
  po_supplier_id :: uuid
  po_status :: PurchaseOrderStatus
  po_notes :: "string option"
  po_order_date :: "timestamptz option"
  po_expected_date :: "timestamptz option"
  po_created_by :: "uuid option"
  po_created_at :: timestamptz
  po_updated_at :: timestamptz

record PurchaseOrderItem =
  poi_id :: uuid
  poi_purchase_order_id :: uuid
  poi_inventory_item_id :: "uuid option"
  poi_item_name :: string
  poi_quantity :: int
  poi_unit_price :: "rat option"
  poi_created_at :: timestamptz

text \<open>
  The element type of the \<^verbatim>\<open>items\<close> argument of createReorderPurchaseOrder.
\<close>

record ReorderItem =
  ri_inventory_item_id :: uuid
  ri_item_name :: string
  ri_quantity :: int
  ri_unit_price :: "rat option"

section \<open>The relational store\<close>

text \<open>
  The store is its tables, each a list of rows in insertion order; \<open>auth_users\<close> holds
  the ids of \<^verbatim>\<open>auth.users\<close>, the target of the user foreign keys.
\<close>

record db =
  auth_users :: "uuid list"
  workspaces :: "Workspace list"
  workspace_members :: "WorkspaceMember list"
  workspace_invitations :: "WorkspaceInvitation list"
  suppliers :: "Supplier list"
  inventory_items :: "inventory_item list"
  purchase_orders :: "PurchaseOrder list"
  purchase_order_items :: "PurchaseOrderItem list"

text \<open>
  What a PostgREST call hands back to the service is \<^verbatim>\<open>{ data, error }\<close>.
  The errors of this development are the store's constraint violations (checked as the
  migrations declare them: primary key, UNIQUE, foreign keys), its refusal of a text that
  is not a value of the column's type, the \<^verbatim>\<open>.single()\<close> failure on a row
  count other than one, a refusal forced from outside the tables, and the one error the
  services construct themselves.
\<close>

datatype pg_error =
    UniqueViolation
  | ForeignKeyViolation
  | InvalidTextRepresentation
  | NotSingleRow
  | Forced string
  | JsError string

text \<open>
  What the world outside the tables contributes to one request: whether the request is
  refused before it touches a table (a transport failure, or a row-level-security policy,
  whose evaluation is not part of this development), the value
  \<^verbatim>\<open>gen_random_uuid()\<close> draws and the value of \<^verbatim>\<open>now()\<close>.
\<close>

record call =
  forced :: "string option"
  fresh_id :: uuid
  now :: timestamptz

subsection \<open>Membership tables\<close>

text \<open>
  \<^verbatim>\<open>from('workspaces').insert({ name, created_by }).select().single()\<close>.
  \<^verbatim>\<open>name TEXT NOT NULL\<close> carries no CHECK, \<^verbatim>\<open>created_by\<close> references
  \<^verbatim>\<open>auth.users(id)\<close>.
\<close>

definition insert_workspaces ::
  "call \<Rightarrow> string \<Rightarrow> uuid \<Rightarrow> db \<Rightarrow> pg_error + (Workspace \<times> db)" where
  "insert_workspaces c name created_by d =
     (case forced c of
        Some reason \<Rightarrow> Inl (Forced reason)
      | None \<Rightarrow>
          if fresh_id c \<in> set (map w_id (workspaces d)) then Inl UniqueViolation
          else if created_by \<notin> set (auth_users d) then Inl ForeignKeyViolation
          else
            let row = \<lparr> w_id = fresh_id c, w_name = name, w_created_by = Some created_by,
                        w_created_at = now c, w_updated_at = now c \<rparr>
            in Inr (row, d\<lparr>workspaces := workspaces d @ [row]\<rparr>))"

text \<open>
  \<^verbatim>\<open>from('workspace_members').insert({ workspace_id, user_id, role })\<close>:
  primary key, \<^verbatim>\<open>UNIQUE (workspace_id, user_id)\<close>, then the two foreign keys.
\<close>

definition insert_workspace_members ::
  "call \<Rightarrow> uuid \<Rightarrow> uuid \<Rightarrow> WorkspaceRole \<Rightarrow> db \<Rightarrow> pg_error + db" where
  "insert_workspace_members c workspace_id user_id role d =
     (case forced c of
        Some reason \<Rightarrow> Inl (Forced reason)
      | None \<Rightarrow>
          if fresh_id c \<in> set (map m_id (workspace_members d)) then Inl UniqueViolation
          else if (workspace_id, user_id)
                    \<in> set (map (\<lambda>m. (m_workspace_id m, m_user_id m)) (workspace_members d))
          then Inl UniqueViolation
          else if workspace_id \<notin> set (map w_id (workspaces d)) then Inl ForeignKeyViolation
          else if user_id \<notin> set (auth_users d) then Inl ForeignKeyViolation
          else
            Inr (d\<lparr>workspace_members := workspace_members d @
                   [\<lparr> m_id = fresh_id c, m_workspace_id = workspace_id,
                      m_user_id = user_id, m_role = role, m_joined_at = now c \<rparr>]\<rparr>))"

text \<open>
  \<^verbatim>\<open>from('workspace_invitations').select('*').eq('id', id).single()\<close>:
  the pair is \<^verbatim>\<open>(data, error)\<close>.
\<close>

definition select_invitation_single ::
  "call \<Rightarrow> uuid \<Rightarrow> db \<Rightarrow> WorkspaceInvitation option \<times> pg_error option" where
  "select_invitation_single c invitationId d =
     (case forced c of
        Some reason \<Rightarrow> (None, Some (Forced reason))
      | None \<Rightarrow>
          (case filter (\<lambda>i. wi_id i = invitationId) (workspace_invitations d) of
             [row] \<Rightarrow> (Some row, None)
           | _ \<Rightarrow> (None, Some NotSingleRow)))"

text \<open>\<^verbatim>\<open>from('workspace_invitations').delete().eq('id', id)\<close>; no table references invitations.\<close>

definition delete_workspace_invitations :: "call \<Rightarrow> uuid \<Rightarrow> db \<Rightarrow> pg_error option \<times> db" where
  "delete_workspace_invitations c invitationId d =
     (case forced c of
        Some reason \<Rightarrow> (Some (Forced reason), d)
      | None \<Rightarrow>
          (None, d\<lparr>workspace_invitations :=
                     filter (\<lambda>i. wi_id i \<noteq> invitationId) (workspace_invitations d)\<rparr>))"

text \<open>
  \<^verbatim>\<open>from('workspace_members').select('role').eq('workspace_id', w).eq('user_id', u).single()\<close>.
\<close>

definition select_member_role_single ::
  "call \<Rightarrow> uuid \<Rightarrow> uuid \<Rightarrow> db \<Rightarrow> WorkspaceRole option \<times> pg_error option" where
  "select_member_role_single c workspaceId userId d =
     (case forced c of
        Some reason \<Rightarrow> (None, Some (Forced reason))
      | None \<Rightarrow>
          (case filter (\<lambda>m. m_workspace_id m = workspaceId \<and> m_user_id m = userId)
                  (workspace_members d) of
             [row] \<Rightarrow> (Some (m_role row), None)
           | _ \<Rightarrow> (None, Some NotSingleRow)))"

text \<open>
  The three SQL functions of the first migration that the policies call.
  \<^verbatim>\<open>get_user_workspace_role\<close> is a \<^verbatim>\<open>SELECT role ... LIMIT 1\<close>.
\<close>

definition get_user_workspace_role :: "uuid \<Rightarrow> uuid \<Rightarrow> db \<Rightarrow> WorkspaceRole option" where
  "get_user_workspace_role p_workspace_id p_user_id d =
     (case filter (\<lambda>m. m_workspace_id m = p_workspace_id \<and> m_user_id m = p_user_id)
             (workspace_members d) of
        [] \<Rightarrow> None
      | row # _ \<Rightarrow> Some (m_role row))"

definition is_workspace_member :: "uuid \<Rightarrow> uuid \<Rightarrow> db \<Rightarrow> bool" where
  "is_workspace_member p_workspace_id p_user_id d =
     list_ex (\<lambda>m. m_workspace_id m = p_workspace_id \<and> m_user_id m = p_user_id)
       (workspace_members d)"

definition is_workspace_admin :: "uuid \<Rightarrow> uuid \<Rightarrow> db \<Rightarrow> bool" where
  "is_workspace_admin p_workspace_id p_user_id d =
     list_ex (\<lambda>m. m_workspace_id m = p_workspace_id \<and> m_user_id m = p_user_id
                  \<and> m_role m = Admin)
       (workspace_members d)"

text \<open>
  \<^verbatim>\<open>from('workspaces').delete().eq('id', id)\<close>. The five tables that
  reference \<^verbatim>\<open>workspaces(id)\<close> do so with ON DELETE CASCADE, and order lines
  cascade from their order. Deleting a supplier or an item on the way applies the
  actions of the rows that reference it: \<^verbatim>\<open>inventory_items.supplier_id\<close>
  and \<^verbatim>\<open>purchase_order_items.inventory_item_id\<close> are SET NULL (an update of
  \<^verbatim>\<open>inventory_items\<close>, so its BEFORE UPDATE trigger stamps
  \<^verbatim>\<open>updated_at\<close>), \<^verbatim>\<open>purchase_orders.supplier_id\<close> is RESTRICT:
  an order that stays and references a supplier that goes refuses the delete.
\<close>

definition delete_workspaces :: "call \<Rightarrow> uuid \<Rightarrow> db \<Rightarrow> pg_error option \<times> db" where
  "delete_workspaces c workspaceId d =
     (case forced c of
        Some reason \<Rightarrow> (Some (Forced reason), d)
      | None \<Rightarrow>
          let gone_suppliers =
                map s_id (filter (\<lambda>s. s_workspace_id s = workspaceId) (suppliers d));
              gone_items =
                map inv_id (filter (\<lambda>i. inv_workspace_id i = workspaceId) (inventory_items d));
              gone_orders =
                map po_id (filter (\<lambda>p. po_workspace_id p = workspaceId) (purchase_orders d));
              kept_orders = filter (\<lambda>p. po_workspace_id p \<noteq> workspaceId) (purchase_orders d)
          in
            if workspaceId \<notin> set (map w_id (workspaces d)) then (None, d)
            else if list_ex (\<lambda>p. po_supplier_id p \<in> set gone_suppliers) kept_orders
            then (Some ForeignKeyViolation, d)
            else
              (None,
               d\<lparr> workspaces := filter (\<lambda>w. w_id w \<noteq> workspaceId) (workspaces d),
                  workspace_members :=
                    filter (\<lambda>m. m_workspace_id m \<noteq> workspaceId) (workspace_members d),
                  workspace_invitations :=
                    filter (\<lambda>i. wi_workspace_id i \<noteq> workspaceId) (workspace_invitations d),
                  suppliers := filter (\<lambda>s. s_workspace_id s \<noteq> workspaceId) (suppliers d),
                  inventory_items :=
                    map (\<lambda>i. case inv_supplier_id i of
                                None \<Rightarrow> i
                              | Some sid \<Rightarrow>
                                  if sid \<in> set gone_suppliers
                                  then i\<lparr>inv_supplier_id := None, inv_updated_at := now c\<rparr>
                                  else i)
                      (filter (\<lambda>i. inv_workspace_id i \<noteq> workspaceId) (inventory_items d)),
                  purchase_orders := kept_orders,
                  purchase_order_items :=
                    map (\<lambda>l. case poi_inventory_item_id l of
                                None \<Rightarrow> l
                              | Some iid \<Rightarrow>
                                  if iid \<in> set gone_items
                                  then l\<lparr>poi_inventory_item_id := None\<rparr>
                                  else l)
                      (filter (\<lambda>l. poi_purchase_order_id l \<notin> set gone_orders)
                         (purchase_order_items d)) \<rparr>))"

subsection \<open>Catalog and procurement tables\<close>

text \<open>\<^verbatim>\<open>interface CreatePurchaseOrderData\<close> and \<^verbatim>\<open>CreatePurchaseOrderItemData\<close>.\<close>

record CreatePurchaseOrderData =
  cpo_workspace_id :: uuid
  cpo_supplier_id :: uuid
  cpo_status :: "PurchaseOrderStatus option"
  cpo_notes :: "string option"
  cpo_order_date :: "timestamptz option"
  cpo_expected_date :: "timestamptz option"
  cpo_created_by :: "uuid option"

record CreatePurchaseOrderItemData =
  cpi_purchase_order_id :: uuid
  cpi_inventory_item_id :: "uuid option"
  cpi_item_name :: string
  cpi_quantity :: int
  cpi_unit_price :: "rat option"

text \<open>
  \<^verbatim>\<open>from("purchase_orders").insert(orderData).select().single()\<close>:
  \<^verbatim>\<open>status\<close> defaults to \<^verbatim>\<open>'draft'\<close>; the foreign keys are
  \<^verbatim>\<open>workspace_id\<close>, \<^verbatim>\<open>supplier_id\<close> and \<^verbatim>\<open>created_by\<close>.
\<close>

definition insert_purchase_orders ::
  "call \<Rightarrow> CreatePurchaseOrderData \<Rightarrow> db \<Rightarrow> pg_error + (PurchaseOrder \<times> db)" where
  "insert_purchase_orders c orderData d =
     (case forced c of
        Some reason \<Rightarrow> Inl (Forced reason)
      | None \<Rightarrow>
          if fresh_id c \<in> set (map po_id (purchase_orders d)) then Inl UniqueViolation
          else if cpo_workspace_id orderData \<notin> set (map w_id (workspaces d))
          then Inl ForeignKeyViolation
          else if cpo_supplier_id orderData \<notin> set (map s_id (suppliers d))
          then Inl ForeignKeyViolation
          else if (case cpo_created_by orderData of
                     None \<Rightarrow> False | Some u \<Rightarrow> u \<notin> set (auth_users d))
          then Inl ForeignKeyViolation
          else
            let row = \<lparr> po_id = fresh_id c,
                        po_workspace_id = cpo_workspace_id orderData,
                        po_supplier_id = cpo_supplier_id orderData,
                        po_status = (case cpo_status orderData of
                                       None \<Rightarrow> Draft | Some st \<Rightarrow> st),
                        po_notes = cpo_notes orderData,
                        po_order_date = cpo_order_date orderData,
                        po_expected_date = cpo_expected_date orderData,
                        po_created_by = cpo_created_by orderData,
                        po_created_at = now c, po_updated_at = now c \<rparr>
            in Inr (row, d\<lparr>purchase_orders := purchase_orders d @ [row]\<rparr>))"

text \<open>
  \<^verbatim>\<open>from("purchase_order_items").insert(itemData).select().single()\<close>:
  the foreign keys are \<^verbatim>\<open>purchase_order_id\<close> and \<^verbatim>\<open>inventory_item_id\<close>.
\<close>

definition insert_purchase_order_items ::
  "call \<Rightarrow> CreatePurchaseOrderItemData \<Rightarrow> db \<Rightarrow> pg_error + (PurchaseOrderItem \<times> db)" where
  "insert_purchase_order_items c itemData d =
     (case forced c of
        Some reason \<Rightarrow> Inl (Forced reason)
      | None \<Rightarrow>
          if fresh_id c \<in> set (map poi_id (purchase_order_items d)) then Inl UniqueViolation
          else if cpi_purchase_order_id itemData \<notin> set (map po_id (purchase_orders d))
          then Inl ForeignKeyViolation
          else if (case cpi_inventory_item_id itemData of
                     None \<Rightarrow> False | Some i \<Rightarrow> i \<notin> set (map inv_id (inventory_items d)))
          then Inl ForeignKeyViolation
          else
            let row = \<lparr> poi_id = fresh_id c,
                        poi_purchase_order_id = cpi_purchase_order_id itemData,
                        poi_inventory_item_id = cpi_inventory_item_id itemData,
                        poi_item_name = cpi_item_name itemData,
                        poi_quantity = cpi_quantity itemData,
                        poi_unit_price = cpi_unit_price itemData,
                        poi_created_at = now c \<rparr>
            in Inr (row, d\<lparr>purchase_order_items := purchase_order_items d @ [row]\<rparr>))"

text \<open>
  \<^verbatim>\<open>from("suppliers").delete().eq("id", supplierId)\<close>. A purchase order that
  references the supplier refuses the delete (ON DELETE RESTRICT); an inventory item that
  references it is updated to \<^verbatim>\<open>supplier_id = NULL\<close> (ON DELETE SET NULL), and
  the trigger \<^verbatim>\<open>update_inventory_items_updated_at\<close> (BEFORE UPDATE, FOR EACH
  ROW) sets \<^verbatim>\<open>updated_at = now()\<close> on each row so updated.
\<close>

definition delete_suppliers :: "call \<Rightarrow> uuid \<Rightarrow> db \<Rightarrow> pg_error option \<times> db" where
  "delete_suppliers c supplierId d =
     (case forced c of
        Some reason \<Rightarrow> (Some (Forced reason), d)
      | None \<Rightarrow>
          if supplierId \<notin> set (map s_id (suppliers d)) then (None, d)
          else if list_ex (\<lambda>p. po_supplier_id p = supplierId) (purchase_orders d)
          then (Some ForeignKeyViolation, d)
          else
            (None,
             d\<lparr> suppliers := filter (\<lambda>s. s_id s \<noteq> supplierId) (suppliers d),
                inventory_items :=
                  map (\<lambda>i. if inv_supplier_id i = Some supplierId
                            then i\<lparr>inv_supplier_id := None, inv_updated_at := now c\<rparr>
                            else i)
                    (inventory_items d) \<rparr>))"

section \<open>Workspace membership service\<close>

text \<open>
  workspaceService.createWorkspace, lines 66-94. The three calls are the three requests
  it awaits; the result is \<^verbatim>\<open>{ workspace, error }\<close> and the store it leaves.
  The outcome of the compensating delete is not looked at.
\<close>

definition createWorkspace ::
  "call \<Rightarrow> call \<Rightarrow> call \<Rightarrow> string \<Rightarrow> uuid \<Rightarrow> db
     \<Rightarrow> (Workspace option \<times> pg_error option) \<times> db" where
  "createWorkspace c1 c2 c3 name userId d =
     (case insert_workspaces c1 name userId d of
        Inl workspaceError \<Rightarrow> ((None, Some workspaceError), d)
      | Inr (workspace, d1) \<Rightarrow>
          (case insert_workspace_members c2 (w_id workspace) userId Admin d1 of
             Inl memberError \<Rightarrow>
               ((None, Some memberError), snd (delete_workspaces c3 (w_id workspace) d1))
           | Inr d2 \<Rightarrow> ((Some workspace, None), d2)))"

text \<open>
  workspaceService.getUserRole, lines 156-165: \<^verbatim>\<open>{ role: data?.role, error }\<close>.
\<close>

definition getUserRole ::
  "call \<Rightarrow> uuid \<Rightarrow> uuid \<Rightarrow> db \<Rightarrow> WorkspaceRole option \<times> pg_error option" where
  "getUserRole c workspaceId userId d = select_member_role_single c workspaceId userId d"

text \<open>
  WorkspaceContext (part_005): fetchUserRole, lines 71-79, gives the next value of
  \<^verbatim>\<open>currentUserRole\<close>; line 116 is \<^verbatim>\<open>isAdmin = currentUserRole === 'admin'\<close>.
\<close>

definition fetchUserRole ::
  "call \<Rightarrow> Workspace option \<Rightarrow> uuid option \<Rightarrow> db \<Rightarrow> WorkspaceRole option" where
  "fetchUserRole c currentWorkspace user d =
     (case currentWorkspace of
        None \<Rightarrow> None
      | Some w \<Rightarrow>
          (case user of
             None \<Rightarrow> None
           | Some u \<Rightarrow> fst (getUserRole c (w_id w) u d)))"

definition isAdmin :: "WorkspaceRole option \<Rightarrow> bool" where
  "isAdmin currentUserRole = (currentUserRole = Some Admin)"

text \<open>
  workspaceService.acceptInvitation, lines 241-270. The result is the
  \<^verbatim>\<open>error\<close> field and the store it leaves. \<^verbatim>\<open>expires_at\<close> is not read;
  the outcome of the final delete is not looked at.
\<close>

definition acceptInvitation ::
  "call \<Rightarrow> call \<Rightarrow> call \<Rightarrow> uuid \<Rightarrow> uuid \<Rightarrow> db \<Rightarrow> pg_error option \<times> db" where
  "acceptInvitation c1 c2 c3 invitationId userId d =
     (case select_invitation_single c1 invitationId d of
        (invitation, Some fetchError) \<Rightarrow> (Some fetchError, d)
      | (None, None) \<Rightarrow> (Some (JsError ''Invitation not found''), d)
      | (Some invitation, None) \<Rightarrow>
          (case insert_workspace_members c2 (wi_workspace_id invitation) userId
                  (wi_role invitation) d of
             Inl memberError \<Rightarrow> (Some memberError, d)
           | Inr d1 \<Rightarrow> (None, snd (delete_workspace_invitations c3 invitationId d1))))"

section \<open>Supplier and purchase-order services\<close>

text \<open>supplierService.deleteSupplier: the store's error is thrown.\<close>

definition deleteSupplier :: "call \<Rightarrow> uuid \<Rightarrow> db \<Rightarrow> pg_error option \<times> db" where
  "deleteSupplier c supplierId d = delete_suppliers c supplierId d"

text \<open>purchaseOrderService.createPurchaseOrder and addPurchaseOrderItem: \<open>Inl\<close> is the throw.\<close>

definition createPurchaseOrder ::
  "call \<Rightarrow> CreatePurchaseOrderData \<Rightarrow> db \<Rightarrow> pg_error + (PurchaseOrder \<times> db)" where
  "createPurchaseOrder c orderData d = insert_purchase_orders c orderData d"

definition addPurchaseOrderItem ::
  "call \<Rightarrow> CreatePurchaseOrderItemData \<Rightarrow> db \<Rightarrow> pg_error + (PurchaseOrderItem \<times> db)" where
  "addPurchaseOrderItem c itemData d = insert_purchase_order_items c itemData d"

text \<open>
  The \<^verbatim>\<open>for (const item of items)\<close> loop of createReorderPurchaseOrder,
  lines 246-254. Each element comes with the call its insert makes. The first throw ends
  the loop; the rows inserted before it stay.
\<close>

fun add_items :: "uuid \<Rightarrow> (call \<times> ReorderItem) list \<Rightarrow> db \<Rightarrow> pg_error option \<times> db" where
  "add_items order_id [] d = (None, d)"
| "add_items order_id ((c, item) # rest) d =
     (case addPurchaseOrderItem c
             \<lparr> cpi_purchase_order_id = order_id,
               cpi_inventory_item_id = Some (ri_inventory_item_id item),
               cpi_item_name = ri_item_name item,
               cpi_quantity = ri_quantity item,
               cpi_unit_price = ri_unit_price item \<rparr> d of
        Inl e \<Rightarrow> (Some e, d)
      | Inr (row, d1) \<Rightarrow> add_items order_id rest d1)"

text \<open>
  purchaseOrderService.createReorderPurchaseOrder, lines 231-257: \<open>Inl\<close> is the throw,
  \<open>Inr\<close> the order returned; the store is returned in both cases.
\<close>

definition createReorderPurchaseOrder ::
  "call \<Rightarrow> uuid \<Rightarrow> uuid \<Rightarrow> (call \<times> ReorderItem) list \<Rightarrow> uuid option \<Rightarrow> db
     \<Rightarrow> (pg_error + PurchaseOrder) \<times> db" where
  "createReorderPurchaseOrder c0 workspaceId supplierId items userId d =
     (case createPurchaseOrder c0
             \<lparr> cpo_workspace_id = workspaceId, cpo_supplier_id = supplierId,
               cpo_status = Some Draft, cpo_notes = None, cpo_order_date = None,
               cpo_expected_date = None, cpo_created_by = userId \<rparr> d of
        Inl e \<Rightarrow> (Inl e, d)
      | Inr (order, d1) \<Rightarrow>
          (case add_items (po_id order) items d1 of
             (Some e, d2) \<Rightarrow> (Inl e, d2)
           | (None, d2) \<Rightarrow> (Inr order, d2)))"

section \<open>Catalog: low stock\<close>

text \<open>Inventory.tsx, line 211: \<^verbatim>\<open>const isLowStock = item.quantity <= item.min_quantity\<close>.\<close>

definition isLowStock :: "'a inventory_item_scheme \<Rightarrow> bool" where
  "isLowStock item = (inv_quantity item \<le> inv_min_quantity item)"

text \<open>
  The embedded \<^verbatim>\<open>supplier:suppliers(id, company_name)\<close> of an item row follows
  its \<^verbatim>\<open>supplier_id\<close>.
\<close>

definition embed_supplier :: "db \<Rightarrow> inventory_item \<Rightarrow> InventoryItem" where
  "embed_supplier d i =
     inventory_item.extend i
       (InventoryItem.fields
          (case inv_supplier_id i of
             None \<Rightarrow> None
           | Some sid \<Rightarrow>
               (case filter (\<lambda>s. s_id s = sid) (suppliers d) of
                  [] \<Rightarrow> None
                | s # _ \<Rightarrow> Some \<lparr> ref_id = s_id s, ref_company_name = s_company_name s \<rparr>)))"

text \<open>
  The value of a filter as the store receives it. postgrest-js' \<^verbatim>\<open>filter(column,
  operator, value)\<close> appends \<^verbatim>\<open>`${operator}.${value}`\<close> to the query string, so
  the store receives a text. Against the integer column \<^verbatim>\<open>quantity\<close> the text has
  to be an integer literal; any other text is refused (invalid input syntax for type
  integer).
\<close>

datatype filter_value = IntegerText int | OtherText

text \<open>
  Line 111 passes \<^verbatim>\<open>supabase.rpc as unknown as number\<close>: the client's
  \<^verbatim>\<open>rpc\<close> method. The cast changes no value; the text of a function is its source,
  which is not an integer literal.
\<close>

definition supabase_rpc :: filter_value where
  "supabase_rpc = OtherText"

text \<open>
  \<^verbatim>\<open>from("inventory_items").select(...).eq("workspace_id", w).filter("quantity",
  "lte", value).order("name")\<close>, answered with \<^verbatim>\<open>(data, error)\<close>. Names are
  ordered as lists of characters by code; the collation of the store is not modelled.
\<close>

definition select_inventory_items_quantity_lte ::
  "call \<Rightarrow> uuid \<Rightarrow> filter_value \<Rightarrow> db \<Rightarrow> InventoryItem list option \<times> pg_error option" where
  "select_inventory_items_quantity_lte c workspaceId v d =
     (case forced c of
        Some reason \<Rightarrow> (None, Some (Forced reason))
      | None \<Rightarrow>
          (case v of
             OtherText \<Rightarrow> (None, Some InvalidTextRepresentation)
           | IntegerText n \<Rightarrow>
               (Some (sort_key inv_name
                        (map (embed_supplier d)
                           (filter (\<lambda>i. inv_workspace_id i = workspaceId \<and> inv_quantity i \<le> n)
                              (inventory_items d)))),
                None)))"

text \<open>
  inventoryService.getLowStockItems, lines 103-117: the request with the value of line
  111, the throw of its error, and the filter of \<^verbatim>\<open>data || []\<close> on the client.
\<close>

definition getLowStockItems :: "call \<Rightarrow> uuid \<Rightarrow> db \<Rightarrow> pg_error + InventoryItem list" where
  "getLowStockItems c workspaceId d =
     (case select_inventory_items_quantity_lte c workspaceId supabase_rpc d of
        (data, Some error) \<Rightarrow> Inl error
      | (data, None) \<Rightarrow>
          Inr (filter (\<lambda>item. inv_quantity item \<le> inv_min_quantity item)
                 (case data of None \<Rightarrow> [] | Some rows \<Rightarrow> rows)))"

text \<open>The dashboard's \<^verbatim>\<open>lowStock\<close> of loadDashboardData (part_002, line 44).\<close>

definition dashboard_lowStock :: "InventoryItem list \<Rightarrow> InventoryItem list" where
  "dashboard_lowStock items =
     filter (\<lambda>item. inv_quantity item \<le> inv_min_quantity item) items"

section \<open>JavaScript numbers\<close>

text \<open>
  A JavaScript number is an IEEE 754 double: not-a-number, an infinity (the flag says
  negative), or a finite value, given by the rational it denotes. The sign of zero is not
  kept: nothing modelled here divides by zero or asks for the sign, and the sum of the
  order total starts at +0, which absorbs a negative zero.
\<close>

datatype number = NaN | Infinity bool | Finite rat

function bit_length :: "int \<Rightarrow> int" where
  "bit_length n = (if n \<le> 0 then 0 else 1 + bit_length (n div 2))"
  by pat_completeness auto
termination
  by (relation "measure nat") auto

declare bit_length.simps [simp del]

definition pow2 :: "int \<Rightarrow> rat" where
  "pow2 e = (if 0 \<le> e then 2 ^ nat e else 1 / 2 ^ nat (- e))"

text \<open>The exponent of a positive rational: the \<open>e\<close> with \<open>2^e \<le> a < 2^(e+1)\<close>.\<close>

definition floor_log2 :: "rat \<Rightarrow> int" where
  "floor_log2 a =
     (let d = bit_length (fst (quotient_of a)) - bit_length (snd (quotient_of a))
      in if pow2 d \<le> a then d else d - 1)"

definition round_half_even :: "rat \<Rightarrow> int" where
  "round_half_even r =
     (let f = \<lfloor>r\<rfloor>; d = r - of_int f
      in if d < 1 / 2 then f
         else if 1 / 2 < d then f + 1
         else if even f then f else f + 1)"

text \<open>
  Rounding to the nearest double, ties to even: 53 significant bits, the last bit worth
  \<open>2^q\<close> with \<open>q\<close> at least -1074 (subnormal numbers), and infinity once the rounded
  value reaches \<open>2^1024\<close>. With \<open>q < 971\<close> the rounded value is at most
  \<open>2^53 * 2^970\<close>, so the comparison with \<open>2^1024\<close> is made for larger \<open>q\<close> only.
\<close>

definition round_double :: "rat \<Rightarrow> number" where
  "round_double x =
     (if x = 0 then Finite 0
      else
        let a = \<bar>x\<bar>;
            q = max (floor_log2 a - 52) (- 1074);
            m = round_half_even (a / pow2 q);
            v = of_int m * pow2 q
        in if q < 971 then Finite (if x < 0 then - v else v)
           else if 2 ^ 1024 \<le> v then Infinity (x < 0)
           else Finite (if x < 0 then - v else v))"

text \<open>
  The double JavaScript holds for a decimal or an integer that was parsed
  (\<^verbatim>\<open>JSON.parse\<close>, \<^verbatim>\<open>parseFloat\<close>, \<^verbatim>\<open>parseInt\<close>).
\<close>

definition to_double :: "rat \<Rightarrow> number" where
  "to_double x = round_double x"

text \<open>\<^verbatim>\<open>x * y\<close> and \<^verbatim>\<open>x + y\<close> on numbers.\<close>

fun js_mul :: "number \<Rightarrow> number \<Rightarrow> number" where
  "js_mul NaN y = NaN"
| "js_mul x NaN = NaN"
| "js_mul (Infinity s) (Infinity t) = Infinity (s \<noteq> t)"
| "js_mul (Infinity s) (Finite y) = (if y = 0 then NaN else Infinity (s \<noteq> (y < 0)))"
| "js_mul (Finite x) (Infinity t) = (if x = 0 then NaN else Infinity ((x < 0) \<noteq> t))"
| "js_mul (Finite x) (Finite y) = round_double (x * y)"

fun js_add :: "number \<Rightarrow> number \<Rightarrow> number" where
  "js_add NaN y = NaN"
| "js_add x NaN = NaN"
| "js_add (Infinity s) (Infinity t) = (if s = t then Infinity s else NaN)"
| "js_add (Infinity s) (Finite y) = Infinity s"
| "js_add (Finite x) (Infinity t) = Infinity t"
| "js_add (Finite x) (Finite y) = round_double (x + y)"

text \<open>
  \<^verbatim>\<open>x || 0\<close> on an optional number: undefined, null, 0 and NaN give 0.
\<close>

definition or_zero :: "number option \<Rightarrow> number" where
  "or_zero p =
     (case p of
        None \<Rightarrow> Finite 0
      | Some NaN \<Rightarrow> Finite 0
      | Some (Infinity s) \<Rightarrow> Infinity s
      | Some (Finite v) \<Rightarrow> if v = 0 then Finite 0 else Finite v)"

section \<open>Procurement: derived quantities\<close>

text \<open>
  PurchaseOrderModal.tsx, lines 169-172:
  \<^verbatim>\<open>orderItems.reduce((sum, item) => sum + (item.unit_price || 0) * item.quantity, 0)\<close>.
\<close>

definition totalAmount :: "OrderItem list \<Rightarrow> number" where
  "totalAmount orderItems =
     foldl (\<lambda>sum item.
              js_add sum
                (js_mul (or_zero (map_option to_double (oi_unit_price item)))
                   (to_double (of_int (oi_quantity item)))))
       (Finite 0) orderItems"

text \<open>JavaScript's \<^verbatim>\<open>x || undefined\<close> on a nullable number: null and 0 give undefined.\<close>

definition or_undefined :: "rat option \<Rightarrow> rat option" where
  "or_undefined p = (case p of None \<Rightarrow> None | Some v \<Rightarrow> if v = 0 then None else Some v)"

text \<open>
  PurchaseOrderModal.tsx, lines 86-101: the order items the modal is opened with.
\<close>

definition prefill_orderItems :: "InventoryItem option \<Rightarrow> OrderItem list" where
  "prefill_orderItems preselectedItem =
     (case preselectedItem of
        Some item \<Rightarrow>
          [\<lparr> oi_inventory_item_id = Some (inv_id item),
             oi_item_name = inv_name item,
             oi_quantity = max 1 (inv_min_quantity item - inv_quantity item),
             oi_unit_price = or_undefined (inv_unit_price item) \<rparr>]
      | None \<Rightarrow> [])"

text \<open>
  ReorderEmailModal (part_003, line 87):
  \<^verbatim>\<open>item ? Math.max(1, item.min_quantity * 2 - item.quantity) : 10\<close>.
\<close>

definition suggestedQty :: "InventoryItem option \<Rightarrow> int" where
  "suggestedQty item =
     (case item of
        Some i \<Rightarrow> max 1 (inv_min_quantity i * 2 - inv_quantity i)
      | None \<Rightarrow> 10)"

text \<open>
  PurchaseOrderModal.updateItemQty, lines 133-137: the user's override of a line's
  quantity. On an index outside the array, \<^verbatim>\<open>updated[index].quantity\<close>
  throws a TypeError.
\<close>

definition updateItemQty :: "OrderItem list \<Rightarrow> nat \<Rightarrow> int \<Rightarrow> OrderItem list option" where
  "updateItemQty orderItems index qty =
     (if index < length orderItems
      then Some (orderItems[index := (orderItems ! index)\<lparr>oi_quantity := max 1 qty\<rparr>])
      else None)"

text \<open>
  PurchaseOrderModal.onSubmit, lines 139-167. What the user sees of it is a toast; each
  order item of the form comes with the call its insert makes. The notes of the form are
  not passed on.
\<close>

datatype toast = ToastError string | ToastSuccess string

record PurchaseOrderFormData =
  fd_supplier_id :: string
  fd_notes :: "string option"

text \<open>\<^verbatim>\<open>x || ''\<close> on an optional string.\<close>

definition or_empty :: "string option \<Rightarrow> string" where
  "or_empty x = (case x of None \<Rightarrow> [] | Some t \<Rightarrow> if t = [] then [] else t)"

definition onSubmit ::
  "call \<Rightarrow> uuid \<Rightarrow> uuid option \<Rightarrow> PurchaseOrderFormData \<Rightarrow> (call \<times> OrderItem) list \<Rightarrow> db
     \<Rightarrow> toast \<times> db" where
  "onSubmit c0 workspaceId user_id formData orderItems d =
     (if length orderItems = 0
      then (ToastError ''Please add at least one item to the order'', d)
      else
        (case createReorderPurchaseOrder c0 workspaceId (fd_supplier_id formData)
                (map (\<lambda>(c, item).
                        (c, \<lparr> ri_inventory_item_id = or_empty (oi_inventory_item_id item),
                              ri_item_name = oi_item_name item,
                              ri_quantity = oi_quantity item,
                              ri_unit_price = oi_unit_price item \<rparr>))
                   orderItems)
                user_id d of
           (Inr order, d') \<Rightarrow> (ToastSuccess ''Purchase order created successfully'', d')
         | (Inl error, d') \<Rightarrow> (ToastError ''Failed to create purchase order'', d')))"

section \<open>Reorder email modal\<close>

text \<open>
  ReorderEmailModal (part_003). Of its state, the three values that go into the request:
  \<^verbatim>\<open>useState(10)\<close>, \<^verbatim>\<open>useState('')\<close>, \<^verbatim>\<open>useState('')\<close>.
\<close>

record ReorderEmailModal_state =
  st_reorderQuantity :: int
  st_companyName :: string
  st_senderName :: string

definition initial_state :: ReorderEmailModal_state where
  "initial_state = \<lparr> st_reorderQuantity = 10, st_companyName = [], st_senderName = [] \<rparr>"

text \<open>The body of the request to \<^verbatim>\<open>generate-reorder-email\<close>, lines 41-50.\<close>

record ReorderEmailRequest =
  rq_itemName :: string
  rq_currentQuantity :: int
  rq_reorderQuantity :: int
  rq_supplierName :: string
  rq_sku :: "string option"
  rq_unitPrice :: "rat option"
  rq_companyName :: string
  rq_senderName :: string

text \<open>\<^verbatim>\<open>x || fallback\<close> on a string: the empty string gives the fallback.\<close>

definition or_text :: "string \<Rightarrow> string \<Rightarrow> string" where
  "or_text x fallback = (if x = [] then fallback else x)"

text \<open>
  handleGenerate, lines 32-67: without an item it returns at once; otherwise it makes one
  request, to the function \<^verbatim>\<open>generate-reorder-email\<close>, which (part_004) asks the
  text-generation gateway and touches no table. The result is the body of that request
  and the store, which is as it was.
\<close>

definition handleGenerate ::
  "ReorderEmailModal_state \<Rightarrow> InventoryItem option \<Rightarrow> db \<Rightarrow> ReorderEmailRequest option \<times> db" where
  "handleGenerate st item d =
     (case item of
        None \<Rightarrow> (None, d)
      | Some i \<Rightarrow>
          (Some \<lparr> rq_itemName = inv_name i,
                  rq_currentQuantity = inv_quantity i,
                  rq_reorderQuantity = st_reorderQuantity st,
                  rq_supplierName =
                    (case inv_supplier i of
                       None \<Rightarrow> ''Unknown Supplier''
                     | Some joined \<Rightarrow> or_text (ref_company_name joined) ''Unknown Supplier''),
                  rq_sku = inv_sku i,
                  rq_unitPrice = inv_unit_price i,
                  rq_companyName = or_text (st_companyName st) ''Our Company'',
                  rq_senderName = or_text (st_senderName st) ''Procurement Team'' \<rparr>,
           d))"

text \<open>
  The quantity input, line 144: \<^verbatim>\<open>setReorderQuantity(parseInt(e.target.value) || 1)\<close>;
  the argument is what \<^verbatim>\<open>parseInt\<close> gives, \<open>None\<close> for NaN.
\<close>

definition change_reorderQuantity ::
  "int option \<Rightarrow> ReorderEmailModal_state \<Rightarrow> ReorderEmailModal_state" where
  "change_reorderQuantity parsed st =
     st\<lparr>st_reorderQuantity :=
          (case parsed of None \<Rightarrow> 1 | Some n \<Rightarrow> if n = 0 then 1 else n)\<rparr>"

text \<open>handleClose, lines 80-85.\<close>

definition handleClose :: "ReorderEmailModal_state \<Rightarrow> ReorderEmailModal_state" where
  "handleClose st = st\<lparr>st_reorderQuantity := 10\<rparr>"

section \<open>Notions used to state the properties\<close>

text \<open>
  The foreign keys into \<^verbatim>\<open>workspaces(id)\<close> hold: every row of the five tables
  that reference a workspace references one that exists. The store maintains this.
\<close>

definition references_hold :: "db \<Rightarrow> bool" where
  "references_hold d =
     (list_all (\<lambda>m. m_workspace_id m \<in> set (map w_id (workspaces d))) (workspace_members d)
      \<and> list_all (\<lambda>i. wi_workspace_id i \<in> set (map w_id (workspaces d))) (workspace_invitations d)
      \<and> list_all (\<lambda>s. s_workspace_id s \<in> set (map w_id (workspaces d))) (suppliers d)
      \<and> list_all (\<lambda>i. inv_workspace_id i \<in> set (map w_id (workspaces d))) (inventory_items d)
      \<and> list_all (\<lambda>p. po_workspace_id p \<in> set (map w_id (workspaces d))) (purchase_orders d))"

text \<open>The order line the loop inserts for one element of \<open>items\<close>.\<close>

definition line_of :: "uuid \<Rightarrow> call \<times> ReorderItem \<Rightarrow> PurchaseOrderItem" where
  "line_of order_id ci =
     \<lparr> poi_id = fresh_id (fst ci), poi_purchase_order_id = order_id,
       poi_inventory_item_id = Some (ri_inventory_item_id (snd ci)),
       poi_item_name = ri_item_name (snd ci), poi_quantity = ri_quantity (snd ci),
       poi_unit_price = ri_unit_price (snd ci), poi_created_at = now (fst ci) \<rparr>"

text \<open>Rewriting every expiry of the invitations table.\<close>

definition with_expiry :: "(WorkspaceInvitation \<Rightarrow> timestamptz) \<Rightarrow> db \<Rightarrow> db" where
  "with_expiry f d =
     d\<lparr>workspace_invitations :=
         map (\<lambda>i. i\<lparr>wi_expires_at := f i\<rparr>) (workspace_invitations d)\<rparr>"

text \<open>
  A rational that is a double, and a list of order items whose total is computed without
  rounding from the partial sum \<open>s\<close> on: every price, quantity, product and partial sum
  is a double.
\<close>

definition is_double :: "rat \<Rightarrow> bool" where
  "is_double v = (round_double v = Finite v)"

fun exact_from :: "rat \<Rightarrow> OrderItem list \<Rightarrow> bool" where
  "exact_from s [] = True"
| "exact_from s (item # rest) =
     (let p = (case oi_unit_price item of None \<Rightarrow> 0 | Some v \<Rightarrow> v);
          q = of_int (oi_quantity item)
      in is_double p \<and> is_double q \<and> is_double (p * q) \<and> is_double (s + p * q)
         \<and> exact_from (s + p * q) rest)"

section \<open>Example stores\<close>

text \<open>Two users and no rows; a call that goes through and one that is refused.\<close>

definition example_db :: db where
  "example_db = \<lparr> auth_users = [''u1'', ''u2''], workspaces = [], workspace_members = [],
       workspace_invitations = [], suppliers = [], inventory_items = [],
       purchase_orders = [], purchase_order_items = [] \<rparr>"

definition call_ok :: "uuid \<Rightarrow> timestamptz \<Rightarrow> call" where
  "call_ok i t = \<lparr> forced = None, fresh_id = i, now = t \<rparr>"

definition call_refused :: "uuid \<Rightarrow> timestamptz \<Rightarrow> call" where
  "call_refused i t = \<lparr> forced = Some ''refused'', fresh_id = i, now = t \<rparr>"

text \<open>
  A workspace with its admin and one invitation that expired at time 7.
\<close>

definition stale_invitation :: WorkspaceInvitation where
  "stale_invitation = \<lparr> wi_id = ''i1'', wi_workspace_id = ''w0'', wi_email = ''b@x.org'',
       wi_role = Member, wi_invited_by = Some ''u1'', wi_created_at = 0, wi_expires_at = 7 \<rparr>"

definition invited_db :: db where
  "invited_db = example_db
     \<lparr> workspaces := [\<lparr> w_id = ''w0'', w_name = ''Home'', w_created_by = Some ''u1'',
                          w_created_at = 0, w_updated_at = 0 \<rparr>],
       workspace_members := [\<lparr> m_id = ''m0'', m_workspace_id = ''w0'', m_user_id = ''u1'',
                                 m_role = Admin, m_joined_at = 0 \<rparr>],
       workspace_invitations := [stale_invitation] \<rparr>"

text \<open>
  The same with a supplier and one item of it below its minimum; then with a purchase
  order placed with that supplier.
\<close>

definition widget :: inventory_item where
  "widget = \<lparr> inv_id = ''i1'', inv_workspace_id = ''w0'', inv_supplier_id = Some ''s1'',
       inv_name = ''Widget'', inv_sku = None, inv_description = None, inv_quantity = 2,
       inv_min_quantity = 7, inv_unit_price = Some (5 / 2), inv_created_at = 0,
       inv_updated_at = 10 \<rparr>"

definition stocked_db :: db where
  "stocked_db = invited_db
     \<lparr> suppliers := [\<lparr> s_id = ''s1'', s_workspace_id = ''w0'', s_company_name = ''Acme Supply'',
                         s_email = None, s_phone = None, s_website = None, s_address = None,
                         s_created_at = 0, s_updated_at = 0 \<rparr>],
       inventory_items := [widget] \<rparr>"

definition widget_line :: ReorderItem where
  "widget_line = \<lparr> ri_inventory_item_id = ''i1'', ri_item_name = ''Widget'',
       ri_quantity = 5, ri_unit_price = Some (5 / 2) \<rparr>"

definition manual_line :: ReorderItem where
  "manual_line = \<lparr> ri_inventory_item_id = [], ri_item_name = ''Gasket'',
       ri_quantity = 1, ri_unit_price = None \<rparr>"

definition ordered_db :: db where
  "ordered_db = stocked_db
     \<lparr> purchase_orders := [\<lparr> po_id = ''o0'', po_workspace_id = ''w0'', po_supplier_id = ''s1'',
          po_status = Draft, po_notes = None, po_order_date = None, po_expected_date = None,
          po_created_by = Some ''u1'', po_created_at = 5, po_updated_at = 5 \<rparr>] \<rparr>"

text \<open>
  The item as the inventory page holds it, with its supplier embedded; three order items
  of the purchase-order form and the form with the supplier chosen.
\<close>

definition widget_item :: InventoryItem where
  "widget_item = embed_supplier stocked_db widget"

definition bolts :: OrderItem where
  "bolts = \<lparr> oi_inventory_item_id = None, oi_item_name = ''Bolt'', oi_quantity = 3,
      oi_unit_price = Some (1 / 10) \<rparr>"

definition widgets :: OrderItem where
  "widgets = \<lparr> oi_inventory_item_id = Some ''i1'', oi_item_name = ''Widget'', oi_quantity = 5,
      oi_unit_price = Some (5 / 2) \<rparr>"

definition gasket :: OrderItem where
  "gasket = \<lparr> oi_inventory_item_id = None, oi_item_name = ''Gasket'', oi_quantity = 2,
      oi_unit_price = None \<rparr>"

definition supplier_form :: PurchaseOrderFormData where
  "supplier_form = \<lparr> fd_supplier_id = ''s1'', fd_notes = None \<rparr>"

lemmas example_defs = example_db_def call_ok_def call_refused_def Let_def

lemmas invited_defs = invited_db_def stale_invitation_def example_defs

lemmas stocked_defs = stocked_db_def widget_def widget_line_def manual_line_def invited_defs

lemmas reorder_defs = createReorderPurchaseOrder_def createPurchaseOrder_def
  insert_purchase_orders_def addPurchaseOrderItem_def insert_purchase_order_items_def

section \<open>Workspace creation\<close>

lemma filter_none: "list_all (\<lambda>x. f x \<in> A) xs \<Longrightarrow> k \<notin> A \<Longrightarrow> filter (\<lambda>x. f x = k) xs = []"
  by (induction xs) auto

lemma filter_all: "list_all (\<lambda>x. f x \<in> A) xs \<Longrightarrow> k \<notin> A \<Longrightarrow> filter (\<lambda>x. f x \<noteq> k) xs = xs"
  by (induction xs) auto

lemma filter_fresh: "k \<notin> set (map f xs) \<Longrightarrow> filter (\<lambda>x. f x \<noteq> k) xs = xs"
  by (induction xs) auto

lemma insert_workspaces_Inr:
  "insert_workspaces c name u d = Inr (w, d1) \<Longrightarrow>
     forced c = None \<and> fresh_id c \<notin> set (map w_id (workspaces d)) \<and> u \<in> set (auth_users d)
     \<and> w = \<lparr> w_id = fresh_id c, w_name = name, w_created_by = Some u,
             w_created_at = now c, w_updated_at = now c \<rparr>
     \<and> d1 = d\<lparr>workspaces := workspaces d @ [w]\<rparr>"
  by (auto simp: insert_workspaces_def Let_def split: option.splits if_splits)

lemma insert_workspace_members_Inr:
  "insert_workspace_members c wid u r d = Inr d1 \<Longrightarrow>
     forced c = None
     \<and> filter (\<lambda>m. m_workspace_id m = wid \<and> m_user_id m = u) (workspace_members d) = []
     \<and> d1 = d\<lparr>workspace_members := workspace_members d @
                [\<lparr> m_id = fresh_id c, m_workspace_id = wid, m_user_id = u, m_role = r,
                   m_joined_at = now c \<rparr>]\<rparr>"
  by (force simp: insert_workspace_members_def filter_empty_conv split: option.splits if_splits)

text \<open>
  Deleting a workspace that was inserted a moment ago, in a store whose foreign keys
  held, gives the store back: nothing references the new id.
\<close>

lemma delete_fresh_workspace:
  assumes "references_hold d" "forced c = None" "w_id w \<notin> set (map w_id (workspaces d))"
  shows "delete_workspaces c (w_id w) (d\<lparr>workspaces := workspaces d @ [w]\<rparr>) = (None, d)"
proof -
  let ?k = "w_id w" and ?A = "set (map w_id (workspaces d))"
  have m: "filter (\<lambda>m. m_workspace_id m \<noteq> ?k) (workspace_members d) = workspace_members d"
    using assms by (intro filter_all[where A = ?A]) (simp_all add: references_hold_def)
  have i: "filter (\<lambda>i. wi_workspace_id i \<noteq> ?k) (workspace_invitations d)
             = workspace_invitations d"
    using assms by (intro filter_all[where A = ?A]) (simp_all add: references_hold_def)
  have s: "filter (\<lambda>s. s_workspace_id s \<noteq> ?k) (suppliers d) = suppliers d"
    using assms by (intro filter_all[where A = ?A]) (simp_all add: references_hold_def)
  have s0: "filter (\<lambda>s. s_workspace_id s = ?k) (suppliers d) = []"
    using assms by (intro filter_none[where A = ?A]) (simp_all add: references_hold_def)
  have v: "filter (\<lambda>i. inv_workspace_id i \<noteq> ?k) (inventory_items d) = inventory_items d"
    using assms by (intro filter_all[where A = ?A]) (simp_all add: references_hold_def)
  have v0: "filter (\<lambda>i. inv_workspace_id i = ?k) (inventory_items d) = []"
    using assms by (intro filter_none[where A = ?A]) (simp_all add: references_hold_def)
  have p: "filter (\<lambda>p. po_workspace_id p \<noteq> ?k) (purchase_orders d) = purchase_orders d"
    using assms by (intro filter_all[where A = ?A]) (simp_all add: references_hold_def)
  have p0: "filter (\<lambda>p. po_workspace_id p = ?k) (purchase_orders d) = []"
    using assms by (intro filter_none[where A = ?A]) (simp_all add: references_hold_def)
  have w: "filter (\<lambda>x. w_id x \<noteq> ?k) (workspaces d) = workspaces d"
    using assms(3) by (rule filter_fresh)
  have mi: "map (\<lambda>i. case inv_supplier_id i of None \<Rightarrow> i
                      | Some sid \<Rightarrow> if sid \<in> set [] then f i else i) xs = xs" for f xs
    by (rule map_idI) (simp split: option.split)
  have ml: "map (\<lambda>l. case poi_inventory_item_id l of None \<Rightarrow> l
                      | Some iid \<Rightarrow> if iid \<in> set [] then g l else l) ys = ys" for g ys
    by (rule map_idI) (simp split: option.split)
  show ?thesis
    using assms(2)
    by (simp add: delete_workspaces_def Let_def m i s s0 v v0 p p0 w mi ml list_ex_iff)
qed

text \<open>
  What createWorkspace leaves behind. When it returns a workspace, it returns no error,
  the workspace row is in the store and the membership rows of that workspace and user
  are exactly one, with role admin. When the workspace insert succeeds and the membership
  insert fails, it returns no workspace and the membership error; if the store then
  carries the compensating delete out (and its foreign keys held before the call) the
  store is as it was before the call; if the store refuses that delete, the workspace row
  stays.
\<close>

lemma createWorkspace_outcomes:
  assumes "createWorkspace c1 c2 c3 name userId d = ((res, err), d')"
  shows "(\<forall>w. res = Some w \<longrightarrow>
            err = None \<and> w_id w = fresh_id c1 \<and> w \<in> set (workspaces d')
            \<and> filter (\<lambda>m. m_workspace_id m = w_id w \<and> m_user_id m = userId)
                  (workspace_members d')
                = [\<lparr> m_id = fresh_id c2, m_workspace_id = w_id w, m_user_id = userId,
                     m_role = Admin, m_joined_at = now c2 \<rparr>])
         \<and> (\<forall>w d1 e. insert_workspaces c1 name userId d = Inr (w, d1)
                    \<and> insert_workspace_members c2 (w_id w) userId Admin d1 = Inl e \<longrightarrow>
                res = None \<and> err = Some e
                \<and> (forced c3 = None \<and> references_hold d \<longrightarrow> d' = d)
                \<and> (forced c3 \<noteq> None \<longrightarrow> d' = d1 \<and> w \<in> set (workspaces d')))"
proof (intro conjI allI impI)
  fix w assume "res = Some w"
  with assms obtain d1 where
    a: "insert_workspaces c1 name userId d = Inr (w, d1)"
    and b: "insert_workspace_members c2 (w_id w) userId Admin d1 = Inr d'"
    and e: "err = None"
    by (auto simp: createWorkspace_def split: sum.splits prod.splits)
  note a' = insert_workspaces_Inr[OF a] and b' = insert_workspace_members_Inr[OF b]
  show "err = None" by (rule e)
  show "w_id w = fresh_id c1" using a' by simp
  show "w \<in> set (workspaces d')" using a' b' by simp
  show "filter (\<lambda>m. m_workspace_id m = w_id w \<and> m_user_id m = userId) (workspace_members d')
        = [\<lparr> m_id = fresh_id c2, m_workspace_id = w_id w, m_user_id = userId,
             m_role = Admin, m_joined_at = now c2 \<rparr>]"
    using b' by simp
next
  fix w d1 e
  assume h: "insert_workspaces c1 name userId d = Inr (w, d1)
             \<and> insert_workspace_members c2 (w_id w) userId Admin d1 = Inl e"
  with assms show "res = None" "err = Some e"
    by (auto simp: createWorkspace_def)
  from h have d1: "d1 = d\<lparr>workspaces := workspaces d @ [w]\<rparr>"
    and fr: "w_id w \<notin> set (map w_id (workspaces d))"
    using insert_workspaces_Inr by fastforce+
  from assms h have d': "d' = snd (delete_workspaces c3 (w_id w) d1)"
    by (auto simp: createWorkspace_def)
  show "d' = d" if "forced c3 = None \<and> references_hold d"
    using that delete_fresh_workspace[of d c3 w] fr d1 d' by simp
  show "d' = d1" if "forced c3 \<noteq> None"
    using that d' by (auto simp: delete_workspaces_def)
  show "w \<in> set (workspaces d')" if "forced c3 \<noteq> None"
    using that d' d1 by (auto simp: delete_workspaces_def)
qed

lemma createWorkspace_outcomes_example:
  "filter (\<lambda>m. m_workspace_id m = ''w1'' \<and> m_user_id m = ''u1'')
      (workspace_members
         (snd (createWorkspace (call_ok ''w1'' 1) (call_ok ''m1'' 2) (call_ok ''x'' 3)
                 ''Acme'' ''u1'' example_db)))
     = [\<lparr> m_id = ''m1'', m_workspace_id = ''w1'', m_user_id = ''u1'', m_role = Admin,
          m_joined_at = 2 \<rparr>]
   \<and> snd (createWorkspace (call_ok ''w1'' 1) (call_refused ''m1'' 2) (call_ok ''x'' 3)
            ''Acme'' ''u1'' example_db) = example_db"
proof -
  let ?w = "\<lparr> w_id = ''w1'', w_name = ''Acme'', w_created_by = Some ''u1'',
               w_created_at = 1, w_updated_at = 1 \<rparr>"
  let ?ok = "createWorkspace (call_ok ''w1'' 1) (call_ok ''m1'' 2) (call_ok ''x'' 3)
               ''Acme'' ''u1'' example_db"
  let ?ko = "createWorkspace (call_ok ''w1'' 1) (call_refused ''m1'' 2) (call_ok ''x'' 3)
               ''Acme'' ''u1'' example_db"
  have ins: "insert_workspaces (call_ok ''w1'' 1) ''Acme'' ''u1'' example_db
               = Inr (?w, example_db\<lparr>workspaces := [?w]\<rparr>)"
    by (simp add: insert_workspaces_def example_defs)
  have run: "?ok = ((Some ?w, snd (fst ?ok)), snd ?ok)"
    by (simp add: createWorkspace_def insert_workspaces_def insert_workspace_members_def
        example_defs)
  have one: "filter (\<lambda>m. m_workspace_id m = ''w1'' \<and> m_user_id m = ''u1'')
      (workspace_members (snd ?ok))
     = [\<lparr> m_id = ''m1'', m_workspace_id = ''w1'', m_user_id = ''u1'', m_role = Admin,
          m_joined_at = 2 \<rparr>]"
    using createWorkspace_outcomes[OF run] by (simp add: example_defs)
  have mem: "insert_workspace_members (call_refused ''m1'' 2) (w_id ?w) ''u1'' Admin
               (example_db\<lparr>workspaces := [?w]\<rparr>) = Inl (Forced ''refused'')"
    by (simp add: insert_workspace_members_def example_defs)
  have held: "references_hold example_db"
    by (simp add: references_hold_def example_defs)
  have undone: "snd ?ko = example_db"
    using createWorkspace_outcomes[of "call_ok ''w1'' 1" "call_refused ''m1'' 2" "call_ok ''x'' 3"
        "''Acme''" "''u1''" example_db "fst (fst ?ko)" "snd (fst ?ko)" "snd ?ko"]
      ins mem held
    by (simp add: call_ok_def)
  show ?thesis using one undone by simp
qed

text \<open>
  C1. createWorkspace is to leave exactly one admin membership on success and, when the
  membership insert fails, to delete the workspace row it has just inserted, so that no
  workspace is left without an admin. Line 89 awaits the compensating delete and does
  not look at its outcome. Here the membership insert is refused and so is the delete:
  the membership error is returned, the workspace row stays, and the store has no
  membership row at all.
\<close>

theorem C1_unchecked_rollback:
  "createWorkspace (call_ok ''w1'' 1) (call_refused ''m1'' 2) (call_refused ''x'' 3)
     ''Acme'' ''u1'' example_db
   = ((None, Some (Forced ''refused'')),
      example_db\<lparr>workspaces := [\<lparr> w_id = ''w1'', w_name = ''Acme'',
                                     w_created_by = Some ''u1'', w_created_at = 1,
                                     w_updated_at = 1 \<rparr>]\<rparr>)
   \<and> workspace_members example_db = []"
  by (simp add: createWorkspace_def insert_workspaces_def insert_workspace_members_def
      delete_workspaces_def example_defs)

text \<open>
  C9 (amended). createWorkspace does not look at the name. With an empty name it returns
  the same error, or none, as with any other name, and when it returns a workspace for
  some name it returns the same workspace with the empty name for the empty name, and that
  row is in the store.
\<close>

theorem C9_name_not_validated:
  "snd (fst (createWorkspace c1 c2 c3 [] userId d))
     = snd (fst (createWorkspace c1 c2 c3 name userId d))
   \<and> (\<forall>w. fst (fst (createWorkspace c1 c2 c3 name userId d)) = Some w \<longrightarrow>
        fst (fst (createWorkspace c1 c2 c3 [] userId d)) = Some (w\<lparr>w_name := []\<rparr>)
        \<and> w\<lparr>w_name := []\<rparr> \<in> set (workspaces (snd (createWorkspace c1 c2 c3 [] userId d))))"
  by (auto simp: createWorkspace_def insert_workspaces_def insert_workspace_members_def Let_def
      split: option.splits sum.splits if_splits)

theorem C9_name_not_validated_witness:
  "fst (createWorkspace (call_ok ''w1'' 1) (call_ok ''m1'' 2) (call_ok ''x'' 3)
          [] ''u1'' example_db)
     = (Some \<lparr> w_id = ''w1'', w_name = [], w_created_by = Some ''u1'',
               w_created_at = 1, w_updated_at = 1 \<rparr>, None)"
proof -
  let ?named = "createWorkspace (call_ok ''w1'' 1) (call_ok ''m1'' 2) (call_ok ''x'' 3)
                  ''Acme'' ''u1'' example_db"
  have "fst ?named = (Some \<lparr> w_id = ''w1'', w_name = ''Acme'', w_created_by = Some ''u1'',
                             w_created_at = 1, w_updated_at = 1 \<rparr>, None)"
    by (simp add: createWorkspace_def insert_workspaces_def insert_workspace_members_def
        example_defs)
  then show ?thesis
    using C9_name_not_validated[of "call_ok ''w1'' 1" "call_ok ''m1'' 2" "call_ok ''x'' 3"
        "''u1''" example_db "''Acme''"]
    by (simp add: prod_eq_iff)
qed

text \<open>
  The claim as stated fails: with an empty name and a store that accepts the two inserts
  the workspace row is created, named by the empty string, and no error is returned.
\<close>

theorem C9_counterexample:
  "createWorkspace (call_ok ''w1'' 1) (call_ok ''m1'' 2) (call_ok ''x'' 3) [] ''u1'' example_db
     = ((Some \<lparr> w_id = ''w1'', w_name = [], w_created_by = Some ''u1'',
                 w_created_at = 1, w_updated_at = 1 \<rparr>, None),
        example_db
          \<lparr> workspaces := [\<lparr> w_id = ''w1'', w_name = [], w_created_by = Some ''u1'',
                               w_created_at = 1, w_updated_at = 1 \<rparr>],
            workspace_members := [\<lparr> m_id = ''m1'', m_workspace_id = ''w1'',
                                      m_user_id = ''u1'', m_role = Admin, m_joined_at = 2 \<rparr>] \<rparr>)"
  by (simp add: createWorkspace_def insert_workspaces_def insert_workspace_members_def
      example_defs)

section \<open>Roles\<close>

text \<open>
  C5. For a workspace and a user with no membership row in it, getUserRole returns no
  role, whatever the call; isAdmin of that answer, and of what fetchUserRole stores, is
  false; and the three functions the store's policies call give no role, not a member,
  not an admin.
\<close>

theorem C5_absent_role_denies:
  assumes "\<not> list_ex (\<lambda>m. m_workspace_id m = workspaceId \<and> m_user_id m = userId)
               (workspace_members d)"
  shows "fst (getUserRole c workspaceId userId d) = None
         \<and> \<not> isAdmin (fst (getUserRole c workspaceId userId d))
         \<and> (w_id w = workspaceId \<longrightarrow> \<not> isAdmin (fetchUserRole c (Some w) (Some userId) d))
         \<and> \<not> isAdmin None
         \<and> get_user_workspace_role workspaceId userId d = None
         \<and> \<not> is_workspace_member workspaceId userId d
         \<and> \<not> is_workspace_admin workspaceId userId d"
proof -
  from assms have
    "filter (\<lambda>m. m_workspace_id m = workspaceId \<and> m_user_id m = userId) (workspace_members d) = []"
    by (auto simp: list_ex_iff filter_empty_conv)
  then have r: "fst (getUserRole c workspaceId userId d) = None"
    by (simp add: getUserRole_def select_member_role_single_def split: option.splits)
  moreover have "get_user_workspace_role workspaceId userId d = None"
    using \<open>filter _ _ = []\<close> by (simp add: get_user_workspace_role_def)
  moreover have "\<not> is_workspace_member workspaceId userId d"
    using assms by (simp add: is_workspace_member_def)
  moreover have "\<not> is_workspace_admin workspaceId userId d"
    using assms by (auto simp: is_workspace_admin_def list_ex_iff)
  ultimately show ?thesis
    by (simp add: isAdmin_def fetchUserRole_def)
qed

theorem C5_absent_role_witness:
  "fst (getUserRole (call_ok ''q'' 5) ''w0'' ''u2'' invited_db) = None
   \<and> \<not> isAdmin (fetchUserRole (call_ok ''q'' 5) (Some (hd (workspaces invited_db)))
                  (Some ''u2'') invited_db)
   \<and> \<not> is_workspace_member ''w0'' ''u2'' invited_db
   \<and> isAdmin (fst (getUserRole (call_ok ''q'' 5) ''w0'' ''u1'' invited_db))"
proof -
  have no: "\<not> list_ex (\<lambda>m. m_workspace_id m = ''w0'' \<and> m_user_id m = ''u2'')
               (workspace_members invited_db)"
    by (simp add: invited_defs)
  have w: "w_id (hd (workspaces invited_db)) = ''w0''"
    by (simp add: invited_defs)
  have yes: "isAdmin (fst (getUserRole (call_ok ''q'' 5) ''w0'' ''u1'' invited_db))"
    by (simp add: isAdmin_def getUserRole_def select_member_role_single_def invited_defs)
  show ?thesis
    using C5_absent_role_denies[OF no, of "call_ok ''q'' 5" "hd (workspaces invited_db)"] w yes
    by simp
qed

section \<open>Accepting an invitation\<close>

lemma select_invitation_single_Some:
  "select_invitation_single c i d = (Some invitation, e) \<Longrightarrow>
     e = None \<and> forced c = None
     \<and> filter (\<lambda>r. wi_id r = i) (workspace_invitations d) = [invitation]"
  by (auto simp: select_invitation_single_def split: option.splits list.splits)

lemma acceptInvitation_cases:
  assumes "acceptInvitation c1 c2 c3 invitationId userId d = (err, d')"
  shows "(err \<noteq> None \<and> d' = d) \<or>
         (\<exists>invitation d1. err = None \<and> select_invitation_single c1 invitationId d = (Some invitation, None)
            \<and> insert_workspace_members c2 (wi_workspace_id invitation) userId (wi_role invitation) d = Inr d1
            \<and> d' = snd (delete_workspace_invitations c3 invitationId d1))"
  using assms
  by (auto simp: acceptInvitation_def split: prod.splits option.splits sum.splits)

text \<open>
  C10. When acceptInvitation returns no error, the invitations with the given id are
  exactly one row, the membership row appended carries the workspace and the role of that
  row, and the invitation is removed if the store carries the delete out; whenever it
  returns an error the store is unchanged, so the invitation is still there; and when the
  invitation is found and the membership insert fails, that error is the one returned.
\<close>

theorem C10_acceptInvitation_role_and_order:
  assumes "acceptInvitation c1 c2 c3 invitationId userId d = (err, d')"
  shows "(err = None \<longrightarrow>
            (\<exists>invitation.
               filter (\<lambda>r. wi_id r = invitationId) (workspace_invitations d) = [invitation]
               \<and> workspace_members d' = workspace_members d @
                    [\<lparr> m_id = fresh_id c2, m_workspace_id = wi_workspace_id invitation,
                       m_user_id = userId, m_role = wi_role invitation,
                       m_joined_at = now c2 \<rparr>]
               \<and> workspace_invitations d'
                   = (case forced c3 of
                        None \<Rightarrow> filter (\<lambda>r. wi_id r \<noteq> invitationId) (workspace_invitations d)
                      | Some reason \<Rightarrow> workspace_invitations d)))
         \<and> (err \<noteq> None \<longrightarrow> d' = d)
         \<and> (\<forall>invitation e. select_invitation_single c1 invitationId d = (Some invitation, None)
                \<and> insert_workspace_members c2 (wi_workspace_id invitation) userId
                      (wi_role invitation) d = Inl e \<longrightarrow>
              err = Some e \<and> d' = d)"
proof (intro conjI impI allI)
  assume "err = None"
  with acceptInvitation_cases[OF assms] obtain invitation d1 where
    s: "select_invitation_single c1 invitationId d = (Some invitation, None)"
    and i: "insert_workspace_members c2 (wi_workspace_id invitation) userId
              (wi_role invitation) d = Inr d1"
    and d': "d' = snd (delete_workspace_invitations c3 invitationId d1)"
    by auto
  have m: "workspace_members d' = workspace_members d1"
    using d' by (simp add: delete_workspace_invitations_def split: option.splits)
  have v: "workspace_invitations d'
             = (case forced c3 of
                  None \<Rightarrow> filter (\<lambda>r. wi_id r \<noteq> invitationId) (workspace_invitations d1)
                | Some reason \<Rightarrow> workspace_invitations d1)"
    using d' by (simp add: delete_workspace_invitations_def split: option.splits)
  from insert_workspace_members_Inr[OF i] select_invitation_single_Some[OF s] m v
  show "\<exists>invitation.
               filter (\<lambda>r. wi_id r = invitationId) (workspace_invitations d) = [invitation]
               \<and> workspace_members d' = workspace_members d @
                    [\<lparr> m_id = fresh_id c2, m_workspace_id = wi_workspace_id invitation,
                       m_user_id = userId, m_role = wi_role invitation,
                       m_joined_at = now c2 \<rparr>]
               \<and> workspace_invitations d'
                   = (case forced c3 of
                        None \<Rightarrow> filter (\<lambda>r. wi_id r \<noteq> invitationId) (workspace_invitations d)
                      | Some reason \<Rightarrow> workspace_invitations d)"
    by (intro exI[of _ invitation]) (simp split: option.splits)
next
  assume "err \<noteq> None"
  with acceptInvitation_cases[OF assms] show "d' = d" by auto
next
  fix invitation e
  assume "select_invitation_single c1 invitationId d = (Some invitation, None)
          \<and> insert_workspace_members c2 (wi_workspace_id invitation) userId
                (wi_role invitation) d = Inl e"
  with assms show "err = Some e" "d' = d"
    by (auto simp: acceptInvitation_def)
qed

theorem C10_acceptInvitation_witness:
  "workspace_members
     (snd (acceptInvitation (call_ok ''a'' 100) (call_ok ''m2'' 100) (call_ok ''b'' 100)
             ''i1'' ''u2'' invited_db))
     = workspace_members invited_db @
         [\<lparr> m_id = ''m2'', m_workspace_id = ''w0'', m_user_id = ''u2'', m_role = Member,
            m_joined_at = 100 \<rparr>]
   \<and> acceptInvitation (call_ok ''a'' 100) (call_refused ''m2'' 100) (call_ok ''b'' 100)
        ''i1'' ''u2'' invited_db = (Some (Forced ''refused''), invited_db)"
proof -
  let ?ok = "acceptInvitation (call_ok ''a'' 100) (call_ok ''m2'' 100) (call_ok ''b'' 100)
               ''i1'' ''u2'' invited_db"
  let ?ko = "acceptInvitation (call_ok ''a'' 100) (call_refused ''m2'' 100) (call_ok ''b'' 100)
               ''i1'' ''u2'' invited_db"
  have run: "?ok = (None, snd ?ok)"
    by (simp add: acceptInvitation_def select_invitation_single_def
        insert_workspace_members_def invited_defs)
  have only: "filter (\<lambda>r. wi_id r = ''i1'') (workspace_invitations invited_db)
                = [stale_invitation]"
    by (simp add: invited_db_def example_db_def stale_invitation_def)
  from C10_acceptInvitation_role_and_order[OF run] obtain invitation where
    "filter (\<lambda>r. wi_id r = ''i1'') (workspace_invitations invited_db) = [invitation]"
    and m: "workspace_members (snd ?ok) = workspace_members invited_db @
              [\<lparr> m_id = fresh_id (call_ok ''m2'' 100),
                 m_workspace_id = wi_workspace_id invitation,
                 m_user_id = ''u2'', m_role = wi_role invitation,
                 m_joined_at = now (call_ok ''m2'' 100) \<rparr>]"
    by auto
  then have "invitation = stale_invitation" using only by simp
  with m have one: "workspace_members (snd ?ok) = workspace_members invited_db @
         [\<lparr> m_id = ''m2'', m_workspace_id = ''w0'', m_user_id = ''u2'', m_role = Member,
            m_joined_at = 100 \<rparr>]"
    by (simp add: stale_invitation_def call_ok_def)
  have sel: "select_invitation_single (call_ok ''a'' 100) ''i1'' invited_db
               = (Some stale_invitation, None)"
    by (simp add: select_invitation_single_def invited_defs)
  have ins: "insert_workspace_members (call_refused ''m2'' 100)
               (wi_workspace_id stale_invitation) ''u2'' (wi_role stale_invitation) invited_db
               = Inl (Forced ''refused'')"
    by (simp add: insert_workspace_members_def call_refused_def)
  have two: "?ko = (Some (Forced ''refused''), invited_db)"
    using C10_acceptInvitation_role_and_order[of "call_ok ''a'' 100" "call_refused ''m2'' 100"
        "call_ok ''b'' 100" "''i1''" "''u2''" invited_db "fst ?ko" "snd ?ko"] sel ins
    by (simp add: prod_eq_iff)
  show ?thesis using one two by simp
qed

lemma filter_map_expiry:
  "filter (\<lambda>i. wi_id i = k) (map (\<lambda>i. i\<lparr>wi_expires_at := f i\<rparr>) xs)
     = map (\<lambda>i. i\<lparr>wi_expires_at := f i\<rparr>) (filter (\<lambda>i. wi_id i = k) xs)"
  by (induction xs) auto

lemma select_with_expiry:
  "select_invitation_single c k (with_expiry f d)
     = (map_option (\<lambda>i. i\<lparr>wi_expires_at := f i\<rparr>) (fst (select_invitation_single c k d)),
        snd (select_invitation_single c k d))"
  by (simp add: select_invitation_single_def with_expiry_def filter_map_expiry
      split: option.splits list.splits)

lemma insert_member_with_expiry:
  "insert_workspace_members c w u r (with_expiry f d)
     = map_sum id (with_expiry f) (insert_workspace_members c w u r d)"
  by (simp add: insert_workspace_members_def with_expiry_def split: option.splits)

lemma delete_invitation_with_expiry:
  "delete_workspace_invitations c k (with_expiry f d)
     = map_prod id (with_expiry f) (delete_workspace_invitations c k d)"
  by (simp add: delete_workspace_invitations_def with_expiry_def filter_map
      comp_def split: option.splits)

lemma acceptInvitation_with_expiry:
  "acceptInvitation c1 c2 c3 k u (with_expiry f d)
     = map_prod id (with_expiry f) (acceptInvitation c1 c2 c3 k u d)"
  by (simp add: acceptInvitation_def select_with_expiry insert_member_with_expiry
      delete_invitation_with_expiry
      split: prod.splits option.splits sum.splits)
    (auto simp: map_sum_def split: sum.splits)

text \<open>
  C3 (amended). acceptInvitation does not read expires_at: the error it returns and the
  membership table it leaves are the same whatever the expiry times of the invitations.
  For an invitation whose expires_at is earlier than the current time it returns no error
  and inserts the membership row whenever the store accepts the insert.
\<close>

theorem C3_expiry_not_checked:
  "fst (acceptInvitation c1 c2 c3 invitationId userId (with_expiry f d))
     = fst (acceptInvitation c1 c2 c3 invitationId userId d)
   \<and> workspace_members (snd (acceptInvitation c1 c2 c3 invitationId userId (with_expiry f d)))
     = workspace_members (snd (acceptInvitation c1 c2 c3 invitationId userId d))
   \<and> (\<forall>invitation d1. select_invitation_single c1 invitationId d = (Some invitation, None)
          \<and> wi_expires_at invitation < now c2
          \<and> insert_workspace_members c2 (wi_workspace_id invitation) userId (wi_role invitation) d = Inr d1
        \<longrightarrow> fst (acceptInvitation c1 c2 c3 invitationId userId d) = None
            \<and> \<lparr> m_id = fresh_id c2, m_workspace_id = wi_workspace_id invitation,
                 m_user_id = userId, m_role = wi_role invitation, m_joined_at = now c2 \<rparr>
               \<in> set (workspace_members
                        (snd (acceptInvitation c1 c2 c3 invitationId userId d))))"
proof (intro conjI allI impI)
  show "fst (acceptInvitation c1 c2 c3 invitationId userId (with_expiry f d))
     = fst (acceptInvitation c1 c2 c3 invitationId userId d)"
    by (simp add: acceptInvitation_with_expiry)
  show "workspace_members (snd (acceptInvitation c1 c2 c3 invitationId userId (with_expiry f d)))
     = workspace_members (snd (acceptInvitation c1 c2 c3 invitationId userId d))"
    by (simp add: acceptInvitation_with_expiry) (simp add: with_expiry_def)
next
  fix invitation d1
  assume h: "select_invitation_single c1 invitationId d = (Some invitation, None)
          \<and> wi_expires_at invitation < now c2
          \<and> insert_workspace_members c2 (wi_workspace_id invitation) userId (wi_role invitation) d = Inr d1"
  then have r: "acceptInvitation c1 c2 c3 invitationId userId d
                 = (None, snd (delete_workspace_invitations c3 invitationId d1))"
    by (simp add: acceptInvitation_def)
  show "fst (acceptInvitation c1 c2 c3 invitationId userId d) = None"
    by (simp add: r)
  from h insert_workspace_members_Inr[of c2 "wi_workspace_id invitation" userId "wi_role invitation" d d1]
  show "\<lparr> m_id = fresh_id c2, m_workspace_id = wi_workspace_id invitation,
                 m_user_id = userId, m_role = wi_role invitation, m_joined_at = now c2 \<rparr>
               \<in> set (workspace_members
                        (snd (acceptInvitation c1 c2 c3 invitationId userId d)))"
    by (simp add: r delete_workspace_invitations_def split: option.splits)
qed

theorem C3_expiry_not_checked_witness:
  "fst (acceptInvitation (call_ok ''a'' 100) (call_ok ''m2'' 100) (call_ok ''b'' 100)
          ''i1'' ''u2'' invited_db) = None
   \<and> \<lparr> m_id = ''m2'', m_workspace_id = ''w0'', m_user_id = ''u2'', m_role = Member,
        m_joined_at = 100 \<rparr>
      \<in> set (workspace_members
               (snd (acceptInvitation (call_ok ''a'' 100) (call_ok ''m2'' 100)
                       (call_ok ''b'' 100) ''i1'' ''u2'' invited_db)))"
proof -
  have sel: "select_invitation_single (call_ok ''a'' 100) ''i1'' invited_db
               = (Some stale_invitation, None)"
    by (simp add: select_invitation_single_def invited_defs)
  have old: "wi_expires_at stale_invitation < now (call_ok ''m2'' 100)"
    by (simp add: stale_invitation_def call_ok_def)
  have ins: "insert_workspace_members (call_ok ''m2'' 100) (wi_workspace_id stale_invitation)
               ''u2'' (wi_role stale_invitation) invited_db
             = Inr (invited_db\<lparr>workspace_members := workspace_members invited_db @
                      [\<lparr> m_id = ''m2'', m_workspace_id = ''w0'', m_user_id = ''u2'',
                         m_role = Member, m_joined_at = 100 \<rparr>]\<rparr>)"
    by (simp add: insert_workspace_members_def invited_defs)
  show ?thesis
    using C3_expiry_not_checked[of "call_ok ''a'' 100" "call_ok ''m2'' 100"
        "call_ok ''b'' 100" "''i1''" "''u2''" "\<lambda>i. wi_expires_at i" invited_db] sel old ins
    by (simp add: stale_invitation_def call_ok_def)
qed

text \<open>
  The claim as stated fails: the invitation expired at 7, it is accepted at 100, no error
  is returned and the membership row is inserted.
\<close>

theorem C3_counterexample:
  "wi_expires_at stale_invitation < now (call_ok ''m2'' 100)
   \<and> acceptInvitation (call_ok ''a'' 100) (call_ok ''m2'' 100) (call_ok ''b'' 100)
        ''i1'' ''u2'' invited_db
      = (None,
         invited_db
           \<lparr> workspace_members := workspace_members invited_db @
                [\<lparr> m_id = ''m2'', m_workspace_id = ''w0'', m_user_id = ''u2'',
                   m_role = Member, m_joined_at = 100 \<rparr>],
             workspace_invitations := [] \<rparr>)"
  by (simp add: acceptInvitation_def select_invitation_single_def
      insert_workspace_members_def delete_workspace_invitations_def invited_defs)

section \<open>Reorder purchase orders\<close>

lemma addPurchaseOrderItem_Inr:
  "addPurchaseOrderItem c
     \<lparr> cpi_purchase_order_id = order_id,
       cpi_inventory_item_id = Some (ri_inventory_item_id item),
       cpi_item_name = ri_item_name item, cpi_quantity = ri_quantity item,
       cpi_unit_price = ri_unit_price item \<rparr> d = Inr (row, d1) \<Longrightarrow>
   d1 = d\<lparr>purchase_order_items := purchase_order_items d @ [line_of order_id (c, item)]\<rparr>"
  by (auto simp: addPurchaseOrderItem_def insert_purchase_order_items_def line_of_def Let_def
      split: option.splits if_splits)

lemma add_items_prefix:
  "add_items order_id items d = (r, d') \<Longrightarrow>
     \<exists>k\<le>length items.
        d' = d\<lparr>purchase_order_items :=
                 purchase_order_items d @ map (line_of order_id) (take k items)\<rparr>
        \<and> (case r of
             None \<Rightarrow> k = length items
           | Some e \<Rightarrow>
               k < length items
               \<and> addPurchaseOrderItem (fst (items ! k))
                    \<lparr> cpi_purchase_order_id = order_id,
                      cpi_inventory_item_id = Some (ri_inventory_item_id (snd (items ! k))),
                      cpi_item_name = ri_item_name (snd (items ! k)),
                      cpi_quantity = ri_quantity (snd (items ! k)),
                      cpi_unit_price = ri_unit_price (snd (items ! k)) \<rparr> d' = Inl e)"
proof (induction items arbitrary: d)
  case Nil
  then show ?case by simp
next
  case (Cons ci rest)
  obtain c item where ci: "ci = (c, item)" by (cases ci)
  show ?case
  proof (cases "addPurchaseOrderItem c
     \<lparr> cpi_purchase_order_id = order_id,
       cpi_inventory_item_id = Some (ri_inventory_item_id item),
       cpi_item_name = ri_item_name item, cpi_quantity = ri_quantity item,
       cpi_unit_price = ri_unit_price item \<rparr> d")
    case (Inl e)
    with Cons.prems ci have "r = Some e" "d' = d" by auto
    with Inl ci show ?thesis by (intro exI[of _ 0]) simp
  next
    case (Inr p)
    obtain row d1 where p: "p = (row, d1)" by (cases p)
    note d1 = addPurchaseOrderItem_Inr[OF Inr[unfolded p]]
    from Cons.prems ci Inr p have "add_items order_id rest d1 = (r, d')" by simp
    from Cons.IH[OF this] obtain k where k: "k \<le> length rest"
      "d' = d1\<lparr>purchase_order_items :=
                 purchase_order_items d1 @ map (line_of order_id) (take k rest)\<rparr>"
      "case r of
             None \<Rightarrow> k = length rest
           | Some e \<Rightarrow>
               k < length rest
               \<and> addPurchaseOrderItem (fst (rest ! k))
                    \<lparr> cpi_purchase_order_id = order_id,
                      cpi_inventory_item_id = Some (ri_inventory_item_id (snd (rest ! k))),
                      cpi_item_name = ri_item_name (snd (rest ! k)),
                      cpi_quantity = ri_quantity (snd (rest ! k)),
                      cpi_unit_price = ri_unit_price (snd (rest ! k)) \<rparr> d' = Inl e"
      by blast
    show ?thesis
      using k d1 ci by (intro exI[of _ "Suc k"]) (simp split: option.splits)
  qed
qed

lemma createPurchaseOrder_Inr:
  "createPurchaseOrder c od d = Inr (order, d1) \<Longrightarrow>
     d1 = d\<lparr>purchase_orders := purchase_orders d @ [order]\<rparr>
     \<and> po_id order = fresh_id c
     \<and> po_workspace_id order = cpo_workspace_id od
     \<and> po_supplier_id order = cpo_supplier_id od
     \<and> po_status order = (case cpo_status od of None \<Rightarrow> Draft | Some st \<Rightarrow> st)
     \<and> po_created_by order = cpo_created_by od"
  by (auto simp: createPurchaseOrder_def insert_purchase_orders_def Let_def
      split: option.splits if_splits)

text \<open>
  C4. createReorderPurchaseOrder first inserts the order; if that fails nothing is
  written. Otherwise the order has status draft, the given creator, workspace and
  supplier, and the store ends with that order appended and with the lines of the first k
  elements appended in the order of the array, for some k: if k is the length of the
  array the order is returned; if k is less, the insert of element k failed on that store,
  its error is thrown, and the order and the k lines stay.
\<close>

theorem C4_createReorderPurchaseOrder:
  assumes "createReorderPurchaseOrder c0 workspaceId supplierId items userId d = (res, d')"
  shows "(\<forall>e. createPurchaseOrder c0
                  \<lparr> cpo_workspace_id = workspaceId, cpo_supplier_id = supplierId,
                    cpo_status = Some Draft, cpo_notes = None, cpo_order_date = None,
                    cpo_expected_date = None, cpo_created_by = userId \<rparr> d = Inl e
              \<longrightarrow> res = Inl e \<and> d' = d)
         \<and> (\<forall>order d1. createPurchaseOrder c0
                  \<lparr> cpo_workspace_id = workspaceId, cpo_supplier_id = supplierId,
                    cpo_status = Some Draft, cpo_notes = None, cpo_order_date = None,
                    cpo_expected_date = None, cpo_created_by = userId \<rparr> d = Inr (order, d1)
              \<longrightarrow>
                po_status order = Draft \<and> po_created_by order = userId
                \<and> po_workspace_id order = workspaceId \<and> po_supplier_id order = supplierId
                \<and> (\<exists>k\<le>length items.
                      d' = d\<lparr> purchase_orders := purchase_orders d @ [order],
                               purchase_order_items :=
                                 purchase_order_items d
                                   @ map (line_of (po_id order)) (take k items) \<rparr>
                      \<and> (k = length items \<longrightarrow> res = Inr order)
                      \<and> (k < length items \<longrightarrow>
                           (\<exists>e. res = Inl e
                              \<and> addPurchaseOrderItem (fst (items ! k))
                                  \<lparr> cpi_purchase_order_id = po_id order,
                                    cpi_inventory_item_id =
                                      Some (ri_inventory_item_id (snd (items ! k))),
                                    cpi_item_name = ri_item_name (snd (items ! k)),
                                    cpi_quantity = ri_quantity (snd (items ! k)),
                                    cpi_unit_price = ri_unit_price (snd (items ! k)) \<rparr> d'
                                 = Inl e))))"
proof (intro conjI allI impI)
  fix e
  assume "createPurchaseOrder c0
                  \<lparr> cpo_workspace_id = workspaceId, cpo_supplier_id = supplierId,
                    cpo_status = Some Draft, cpo_notes = None, cpo_order_date = None,
                    cpo_expected_date = None, cpo_created_by = userId \<rparr> d = Inl e"
  with assms show "res = Inl e" "d' = d"
    by (auto simp: createReorderPurchaseOrder_def)
next
  fix order d1
  assume c: "createPurchaseOrder c0
                  \<lparr> cpo_workspace_id = workspaceId, cpo_supplier_id = supplierId,
                    cpo_status = Some Draft, cpo_notes = None, cpo_order_date = None,
                    cpo_expected_date = None, cpo_created_by = userId \<rparr> d = Inr (order, d1)"
  note o = createPurchaseOrder_Inr[OF c]
  show "po_status order = Draft" "po_created_by order = userId"
    "po_workspace_id order = workspaceId" "po_supplier_id order = supplierId"
    using o by simp_all
  obtain r where r: "add_items (po_id order) items d1 = (r, d')"
    and res: "res = (case r of None \<Rightarrow> Inr order | Some e \<Rightarrow> Inl e)"
    using assms c
    by (cases "add_items (po_id order) items d1")
      (auto simp: createReorderPurchaseOrder_def split: option.splits)
  from add_items_prefix[OF r] obtain k where k: "k \<le> length items"
    "d' = d1\<lparr>purchase_order_items :=
               purchase_order_items d1 @ map (line_of (po_id order)) (take k items)\<rparr>"
    "case r of
       None \<Rightarrow> k = length items
     | Some e \<Rightarrow>
         k < length items
         \<and> addPurchaseOrderItem (fst (items ! k))
              \<lparr> cpi_purchase_order_id = po_id order,
                cpi_inventory_item_id = Some (ri_inventory_item_id (snd (items ! k))),
                cpi_item_name = ri_item_name (snd (items ! k)),
                cpi_quantity = ri_quantity (snd (items ! k)),
                cpi_unit_price = ri_unit_price (snd (items ! k)) \<rparr> d' = Inl e"
    by blast
  have d': "d' = d\<lparr> purchase_orders := purchase_orders d @ [order],
                    purchase_order_items :=
                      purchase_order_items d @ map (line_of (po_id order)) (take k items) \<rparr>"
    using k(2) o by simp
  show "\<exists>k\<le>length items.
          d' = d\<lparr> purchase_orders := purchase_orders d @ [order],
                   purchase_order_items :=
                     purchase_order_items d @ map (line_of (po_id order)) (take k items) \<rparr>
          \<and> (k = length items \<longrightarrow> res = Inr order)
          \<and> (k < length items \<longrightarrow>
               (\<exists>e. res = Inl e
                  \<and> addPurchaseOrderItem (fst (items ! k))
                      \<lparr> cpi_purchase_order_id = po_id order,
                        cpi_inventory_item_id = Some (ri_inventory_item_id (snd (items ! k))),
                        cpi_item_name = ri_item_name (snd (items ! k)),
                        cpi_quantity = ri_quantity (snd (items ! k)),
                        cpi_unit_price = ri_unit_price (snd (items ! k)) \<rparr> d'
                     = Inl e))"
    using k(1,3) d' res by (intro exI[of _ k]) (auto split: option.splits)
qed

theorem C4_createReorderPurchaseOrder_witness:
  "fst (createReorderPurchaseOrder (call_ok ''o1'' 20) ''w0'' ''s1''
          [(call_ok ''l1'' 21, widget_line)] (Some ''u1'') stocked_db)
     = Inr \<lparr> po_id = ''o1'', po_workspace_id = ''w0'', po_supplier_id = ''s1'',
             po_status = Draft, po_notes = None, po_order_date = None,
             po_expected_date = None, po_created_by = Some ''u1'', po_created_at = 20,
             po_updated_at = 20 \<rparr>
   \<and> map poi_quantity (purchase_order_items
        (snd (createReorderPurchaseOrder (call_ok ''o1'' 20) ''w0'' ''s1''
                [(call_ok ''l1'' 21, widget_line)] (Some ''u1'') stocked_db))) = [5]
   \<and> fst (createReorderPurchaseOrder (call_ok ''o1'' 20) ''w0'' ''s1''
            [(call_ok ''l1'' 21, widget_line), (call_ok ''l2'' 22, manual_line),
             (call_ok ''l3'' 23, widget_line)] (Some ''u1'') stocked_db)
     = Inl ForeignKeyViolation
   \<and> map po_id (purchase_orders
        (snd (createReorderPurchaseOrder (call_ok ''o1'' 20) ''w0'' ''s1''
            [(call_ok ''l1'' 21, widget_line), (call_ok ''l2'' 22, manual_line),
             (call_ok ''l3'' 23, widget_line)] (Some ''u1'') stocked_db))) = [''o1'']
   \<and> map poi_id (purchase_order_items
        (snd (createReorderPurchaseOrder (call_ok ''o1'' 20) ''w0'' ''s1''
            [(call_ok ''l1'' 21, widget_line), (call_ok ''l2'' 22, manual_line),
             (call_ok ''l3'' 23, widget_line)] (Some ''u1'') stocked_db))) = [''l1'']"
proof -
  let ?o = "\<lparr> po_id = ''o1'', po_workspace_id = ''w0'', po_supplier_id = ''s1'',
             po_status = Draft, po_notes = None, po_order_date = None,
             po_expected_date = None, po_created_by = Some ''u1'', po_created_at = 20,
             po_updated_at = 20 \<rparr>"
  let ?one = "createReorderPurchaseOrder (call_ok ''o1'' 20) ''w0'' ''s1''
          [(call_ok ''l1'' 21, widget_line)] (Some ''u1'') stocked_db"
  let ?three = "createReorderPurchaseOrder (call_ok ''o1'' 20) ''w0'' ''s1''
            [(call_ok ''l1'' 21, widget_line), (call_ok ''l2'' 22, manual_line),
             (call_ok ''l3'' 23, widget_line)] (Some ''u1'') stocked_db"
  have order: "createPurchaseOrder (call_ok ''o1'' 20)
                 \<lparr> cpo_workspace_id = ''w0'', cpo_supplier_id = ''s1'',
                   cpo_status = Some Draft, cpo_notes = None, cpo_order_date = None,
                   cpo_expected_date = None, cpo_created_by = Some ''u1'' \<rparr> stocked_db
               = Inr (?o, stocked_db\<lparr>purchase_orders := [?o]\<rparr>)"
    by (simp add: reorder_defs stocked_defs)
  have r1: "?one = (Inr ?o, snd ?one)"
    by (simp add: reorder_defs stocked_defs)
  have "fst ?one = Inr ?o" using r1 by (metis fst_conv)
  moreover
  from C4_createReorderPurchaseOrder[OF r1] order
  have "purchase_order_items (snd ?one) = [line_of ''o1'' (call_ok ''l1'' 21, widget_line)]"
    by (auto simp: stocked_defs)
  then have "map poi_quantity (purchase_order_items (snd ?one)) = [5]"
    by (simp add: line_of_def widget_line_def)
  moreover
  have r3: "?three = (Inl ForeignKeyViolation, snd ?three)"
    by (simp add: reorder_defs stocked_defs)
  have "fst ?three = Inl ForeignKeyViolation" using r3 by (metis fst_conv)
  moreover
  from C4_createReorderPurchaseOrder[OF r3] order
  obtain k where k:
    "snd ?three = stocked_db
        \<lparr> purchase_orders := purchase_orders stocked_db @ [?o],
          purchase_order_items := purchase_order_items stocked_db
             @ map (line_of ''o1'')
                 (take k [(call_ok ''l1'' 21, widget_line), (call_ok ''l2'' 22, manual_line),
                          (call_ok ''l3'' 23, widget_line)]) \<rparr>"
    by auto
  have "map po_id (purchase_orders (snd ?three)) = [''o1'']"
    by (simp add: k) (simp add: stocked_defs)
  moreover
  have "map poi_id (purchase_order_items (snd ?three)) = [''l1'']"
    by (simp add: reorder_defs stocked_defs)
  ultimately show ?thesis by simp
qed

text \<open>
  What createReorderPurchaseOrder writes: at most the order, which does not depend on the
  items, and lines of the first elements of the array.
\<close>

lemma createReorderPurchaseOrder_writes:
  assumes "createReorderPurchaseOrder c0 workspaceId supplierId items userId d = (res, d')"
  shows "\<exists>k\<le>length items.
           d' = d\<lparr> purchase_orders := purchase_orders d @
                     (case createPurchaseOrder c0
                             \<lparr> cpo_workspace_id = workspaceId, cpo_supplier_id = supplierId,
                               cpo_status = Some Draft, cpo_notes = None,
                               cpo_order_date = None, cpo_expected_date = None,
                               cpo_created_by = userId \<rparr> d of
                        Inl e \<Rightarrow> []
                      | Inr (order, d1) \<Rightarrow> [order]),
                   purchase_order_items := purchase_order_items d @
                     map (line_of (fresh_id c0)) (take k items) \<rparr>"
proof (cases "createPurchaseOrder c0
                \<lparr> cpo_workspace_id = workspaceId, cpo_supplier_id = supplierId,
                  cpo_status = Some Draft, cpo_notes = None, cpo_order_date = None,
                  cpo_expected_date = None, cpo_created_by = userId \<rparr> d")
  case (Inl e)
  with assms have "d' = d" by (auto simp: createReorderPurchaseOrder_def)
  with Inl show ?thesis by (intro exI[of _ 0]) simp
next
  case (Inr p)
  obtain order d1 where p: "p = (order, d1)" by (cases p)
  note o = createPurchaseOrder_Inr[OF Inr[unfolded p]]
  obtain r where r: "add_items (po_id order) items d1 = (r, d')"
    using assms Inr p
    by (cases "add_items (po_id order) items d1")
      (auto simp: createReorderPurchaseOrder_def split: option.splits)
  from add_items_prefix[OF r] obtain k where k: "k \<le> length items"
    "d' = d1\<lparr>purchase_order_items :=
               purchase_order_items d1 @ map (line_of (po_id order)) (take k items)\<rparr>"
    by blast
  show ?thesis
    using k o Inr p by (intro exI[of _ k]) simp
qed

section \<open>Deleting a supplier\<close>

text \<open>
  C6 (amended). Deleting a supplier that a purchase order references is refused and the
  store is unchanged; the error is the foreign-key violation when the request reaches the
  tables. Otherwise the supplier row is removed, no inventory item is removed, an item
  that referenced the supplier keeps every field but supplier_id, now null, and
  updated_at, now the time of the delete, and every other item is unchanged.
\<close>

theorem C6_deleteSupplier:
  assumes "supplierId \<in> set (map s_id (suppliers d))"
  shows "(list_ex (\<lambda>p. po_supplier_id p = supplierId) (purchase_orders d) \<longrightarrow>
            fst (deleteSupplier c supplierId d) \<noteq> None
            \<and> snd (deleteSupplier c supplierId d) = d
            \<and> (forced c = None \<longrightarrow>
                 fst (deleteSupplier c supplierId d) = Some ForeignKeyViolation))
         \<and> (\<not> list_ex (\<lambda>p. po_supplier_id p = supplierId) (purchase_orders d)
              \<and> forced c = None \<longrightarrow>
              fst (deleteSupplier c supplierId d) = None
              \<and> supplierId \<notin> set (map s_id (suppliers (snd (deleteSupplier c supplierId d))))
              \<and> length (inventory_items (snd (deleteSupplier c supplierId d)))
                  = length (inventory_items d)
              \<and> (\<forall>k<length (inventory_items d).
                    inventory_items (snd (deleteSupplier c supplierId d)) ! k
                      = (if inv_supplier_id (inventory_items d ! k) = Some supplierId
                         then (inventory_items d ! k)
                                \<lparr>inv_supplier_id := None, inv_updated_at := now c\<rparr>
                         else inventory_items d ! k)))"
  using assms
  by (auto simp: deleteSupplier_def delete_suppliers_def split: option.splits)

theorem C6_deleteSupplier_witness:
  "deleteSupplier (call_ok ''x'' 50) ''s1'' ordered_db = (Some ForeignKeyViolation, ordered_db)
   \<and> fst (deleteSupplier (call_ok ''x'' 50) ''s1'' stocked_db) = None
   \<and> suppliers (snd (deleteSupplier (call_ok ''x'' 50) ''s1'' stocked_db)) = []
   \<and> inventory_items (snd (deleteSupplier (call_ok ''x'' 50) ''s1'' stocked_db)) ! 0
       = widget\<lparr>inv_supplier_id := None, inv_updated_at := 50\<rparr>"
proof -
  have f: "forced (call_ok ''x'' 50) = None" by (simp add: call_ok_def)
  have s1: "''s1'' \<in> set (map s_id (suppliers ordered_db))"
    by (simp add: ordered_db_def stocked_defs)
  have s2: "''s1'' \<in> set (map s_id (suppliers stocked_db))"
    by (simp add: stocked_defs)
  have po: "list_ex (\<lambda>p. po_supplier_id p = ''s1'') (purchase_orders ordered_db)"
    by (simp add: ordered_db_def)
  have nopo: "\<not> list_ex (\<lambda>p. po_supplier_id p = ''s1'') (purchase_orders stocked_db)"
    by (simp add: stocked_defs)
  have it: "inventory_items stocked_db = [widget]"
    by (simp add: stocked_db_def)
  have sup: "suppliers (snd (deleteSupplier (call_ok ''x'' 50) ''s1'' stocked_db)) = []"
    by (simp add: deleteSupplier_def delete_suppliers_def stocked_defs)
  from C6_deleteSupplier[OF s1, of "call_ok ''x'' 50"] po f
  have a: "deleteSupplier (call_ok ''x'' 50) ''s1'' ordered_db
             = (Some ForeignKeyViolation, ordered_db)"
    by (simp add: prod_eq_iff)
  from C6_deleteSupplier[OF s2, of "call_ok ''x'' 50"] nopo f
  have b: "fst (deleteSupplier (call_ok ''x'' 50) ''s1'' stocked_db) = None"
    and c: "inventory_items (snd (deleteSupplier (call_ok ''x'' 50) ''s1'' stocked_db)) ! 0
       = widget\<lparr>inv_supplier_id := None, inv_updated_at := 50\<rparr>"
    by (simp_all add: it) (simp_all add: widget_def call_ok_def)
  show ?thesis using a b c sup by simp
qed

text \<open>
  The claim as stated fails on updated_at: the item was last updated at 10, the supplier
  is deleted at 50, and the item's updated_at is 50 afterwards.
\<close>

theorem C6_counterexample:
  "inventory_items (snd (deleteSupplier (call_ok ''x'' 50) ''s1'' stocked_db))
     = [widget\<lparr>inv_supplier_id := None, inv_updated_at := 50\<rparr>]
   \<and> inv_updated_at widget = 10
   \<and> widget\<lparr>inv_supplier_id := None, inv_updated_at := 50\<rparr> \<noteq> widget\<lparr>inv_supplier_id := None\<rparr>"
  by (simp add: deleteSupplier_def delete_suppliers_def stocked_defs)

section \<open>Low stock\<close>

lemma getLowStockItems_throws:
  "getLowStockItems c workspaceId d
     = Inl (case forced c of None \<Rightarrow> InvalidTextRepresentation | Some reason \<Rightarrow> Forced reason)"
  by (simp add: getLowStockItems_def select_inventory_items_quantity_lte_def supabase_rpc_def
      split: option.splits)

text \<open>
  C2. The low-stock predicate of an item is exactly quantity <= min_quantity and does not
  look at the supplier, and the dashboard's filter returns the low-stock items of its
  list in the order of that list. getLowStockItems is to do the same and does not: the
  value it sends for the filter on quantity is a function, the store refuses the request,
  and the function throws for every workspace and every store, here for a workspace that
  holds a low-stock item.
\<close>

theorem C2_low_stock_filter:
  "isLowStock item = (inv_quantity item \<le> inv_min_quantity item)
   \<and> isLowStock (item\<lparr>inv_supplier_id := sid, inv_supplier := sref\<rparr>) = isLowStock item
   \<and> dashboard_lowStock rows = filter isLowStock rows
   \<and> subseq (dashboard_lowStock rows) rows
   \<and> set (dashboard_lowStock rows) = {i \<in> set rows. isLowStock i}
   \<and> isLowStock widget
   \<and> getLowStockItems (call_ok ''q'' 60) (inv_workspace_id widget) stocked_db
       = Inl InvalidTextRepresentation
   \<and> (\<exists>e. getLowStockItems c workspaceId d = Inl e)"
proof -
  have pred: "(\<lambda>i::InventoryItem. inv_quantity i \<le> inv_min_quantity i) = isLowStock"
    by (rule ext) (simp add: isLowStock_def)
  have "set (dashboard_lowStock rows) = {i \<in> set rows. isLowStock i}"
    by (auto simp: dashboard_lowStock_def isLowStock_def)
  moreover have "isLowStock widget"
    by (simp add: isLowStock_def widget_def)
  moreover have "getLowStockItems (call_ok ''q'' 60) (inv_workspace_id widget) stocked_db
       = Inl InvalidTextRepresentation"
    by (simp add: getLowStockItems_throws call_ok_def)
  moreover have "\<exists>e. getLowStockItems c workspaceId d = Inl e"
    by (simp add: getLowStockItems_throws)
  ultimately show ?thesis
    by (simp add: dashboard_lowStock_def pred) (simp add: isLowStock_def)
qed

section \<open>Order total\<close>

lemma round_double_0: "round_double 0 = Finite 0"
  by (simp add: round_double_def)

lemma doubles_exact:
  "is_double 5" "is_double (5 / 2)" "is_double (25 / 2)" "is_double 2" "is_double 0"
  unfolding is_double_def by code_simp+

text \<open>
  The rounding on known doubles: 0.1, 3 * 0.1 and 0.1 + 0.2 (both
  0.30000000000000004), the ties above \<open>2^53\<close>, and -1/3.
\<close>

lemma round_double_examples:
  "round_double (1 / 10) = Finite (3602879701896397 / 2 ^ 55)"
  "round_double (3602879701896397 / 2 ^ 55 * 3) = Finite (5404319552844596 / 2 ^ 54)"
  "js_add (round_double (1 / 10)) (round_double (2 / 10))
     = Finite (5404319552844596 / 2 ^ 54)"
  "round_double (2 ^ 53 + 1) = Finite (2 ^ 53)"
  "round_double (2 ^ 53 + 3) = Finite (2 ^ 53 + 4)"
  "round_double (- (1 / 3)) = Finite (- (6004799503160661 / 2 ^ 54))"
  by code_simp+

lemma total_step:
  assumes "is_double (case oi_unit_price item of None \<Rightarrow> 0 | Some v \<Rightarrow> v)"
    and "is_double (of_int (oi_quantity item))"
    and "is_double ((case oi_unit_price item of None \<Rightarrow> 0 | Some v \<Rightarrow> v)
                      * of_int (oi_quantity item))"
  shows "js_mul (or_zero (map_option to_double (oi_unit_price item)))
           (to_double (of_int (oi_quantity item)))
         = Finite ((case oi_unit_price item of None \<Rightarrow> 0 | Some v \<Rightarrow> v)
                     * of_int (oi_quantity item))"
  using assms
  by (cases "oi_unit_price item")
    (auto simp: is_double_def or_zero_def to_double_def round_double_0)

lemma total_exact:
  "exact_from s orderItems \<Longrightarrow>
     foldl (\<lambda>sum item.
              js_add sum
                (js_mul (or_zero (map_option to_double (oi_unit_price item)))
                   (to_double (of_int (oi_quantity item)))))
       (Finite s) orderItems
     = Finite (s + (\<Sum>item\<leftarrow>orderItems.
                      of_int (oi_quantity item)
                        * (case oi_unit_price item of None \<Rightarrow> 0 | Some p \<Rightarrow> p)))"
proof (induction orderItems arbitrary: s)
  case Nil
  then show ?case by simp
next
  case (Cons item rest)
  let ?p = "case oi_unit_price item of None \<Rightarrow> 0 | Some v \<Rightarrow> v"
  let ?q = "of_int (oi_quantity item) :: rat"
  from Cons.prems have e: "is_double ?p" "is_double ?q" "is_double (?p * ?q)"
    "is_double (s + ?p * ?q)" "exact_from (s + ?p * ?q) rest"
    by (simp_all add: Let_def)
  have m: "js_mul (or_zero (map_option to_double (oi_unit_price item)))
             (to_double (of_int (oi_quantity item))) = Finite (?p * ?q)"
    using e(1-3) by (rule total_step)
  have a: "round_double (s + ?p * ?q) = Finite (s + ?p * ?q)"
    using e(4) by (simp add: is_double_def)
  have "foldl (\<lambda>sum item.
              js_add sum
                (js_mul (or_zero (map_option to_double (oi_unit_price item)))
                   (to_double (of_int (oi_quantity item)))))
          (Finite s) (item # rest)
        = foldl (\<lambda>sum item.
              js_add sum
                (js_mul (or_zero (map_option to_double (oi_unit_price item)))
                   (to_double (of_int (oi_quantity item)))))
          (Finite (s + ?p * ?q)) rest"
    by (simp add: m a)
  also have "\<dots> = Finite (s + ?p * ?q
                 + (\<Sum>item\<leftarrow>rest. of_int (oi_quantity item)
                      * (case oi_unit_price item of None \<Rightarrow> 0 | Some p \<Rightarrow> p)))"
    by (rule Cons.IH[OF e(5)])
  also have "\<dots> = Finite (s + (\<Sum>item\<leftarrow>item # rest. of_int (oi_quantity item)
                      * (case oi_unit_price item of None \<Rightarrow> 0 | Some p \<Rightarrow> p)))"
    by (simp add: mult.commute add.assoc)
  finally show ?case .
qed

text \<open>
  C7 (amended). The order total is the sum in doubles, from +0 and from left to right, of
  the doubles unit_price * quantity, a missing unit price counting as 0. It is the exact
  sum of quantity * unit_price whenever every price, quantity, product and partial sum is
  a double; one line of 5 units at 2.50 totals 12.50. The total is computed from the
  form's order items and is not persisted: the order row that onSubmit writes is the same
  whatever the order items are.
\<close>

theorem C7_order_total:
  "(exact_from 0 orderItems \<longrightarrow>
      totalAmount orderItems
        = Finite (\<Sum>item\<leftarrow>orderItems.
                    of_int (oi_quantity item)
                      * (case oi_unit_price item of None \<Rightarrow> 0 | Some p \<Rightarrow> p)))
   \<and> totalAmount [] = Finite 0
   \<and> totalAmount (orderItems @ [item])
       = js_add (totalAmount orderItems)
           (js_mul (or_zero (map_option to_double (oi_unit_price item)))
              (to_double (of_int (oi_quantity item))))
   \<and> totalAmount [\<lparr> oi_inventory_item_id = iid, oi_item_name = nm,
                    oi_quantity = 5, oi_unit_price = Some (5 / 2) \<rparr>] = Finite (25 / 2)
   \<and> (lines \<noteq> [] \<and> others \<noteq> [] \<longrightarrow>
        purchase_orders (snd (onSubmit c0 workspaceId user_id formData lines d))
          = purchase_orders (snd (onSubmit c0 workspaceId user_id formData others d)))"
proof (intro conjI impI)
  assume "exact_from 0 orderItems"
  from total_exact[OF this] show "totalAmount orderItems
        = Finite (\<Sum>item\<leftarrow>orderItems.
                    of_int (oi_quantity item)
                      * (case oi_unit_price item of None \<Rightarrow> 0 | Some p \<Rightarrow> p))"
    by (simp add: totalAmount_def)
next
  show "totalAmount [] = Finite 0" by (simp add: totalAmount_def)
  show "totalAmount (orderItems @ [item])
       = js_add (totalAmount orderItems)
           (js_mul (or_zero (map_option to_double (oi_unit_price item)))
              (to_double (of_int (oi_quantity item))))"
    by (simp add: totalAmount_def)
  have "exact_from 0 [\<lparr> oi_inventory_item_id = iid, oi_item_name = nm,
                    oi_quantity = 5, oi_unit_price = Some (5 / 2) \<rparr>]"
    using doubles_exact by simp
  from total_exact[OF this]
  show "totalAmount [\<lparr> oi_inventory_item_id = iid, oi_item_name = nm,
                    oi_quantity = 5, oi_unit_price = Some (5 / 2) \<rparr>] = Finite (25 / 2)"
    by (simp add: totalAmount_def)
next
  assume ne: "lines \<noteq> [] \<and> others \<noteq> []"
  have w: "purchase_orders (snd (onSubmit c0 workspaceId user_id formData xs d))
             = purchase_orders d @
                 (case createPurchaseOrder c0
                         \<lparr> cpo_workspace_id = workspaceId,
                           cpo_supplier_id = fd_supplier_id formData,
                           cpo_status = Some Draft, cpo_notes = None,
                           cpo_order_date = None, cpo_expected_date = None,
                           cpo_created_by = user_id \<rparr> d of
                    Inl e \<Rightarrow> []
                  | Inr (order, d1) \<Rightarrow> [order])"
    if "xs \<noteq> []" for xs
  proof -
    obtain res d' where r: "createReorderPurchaseOrder c0 workspaceId (fd_supplier_id formData)
                (map (\<lambda>(c, item).
                        (c, \<lparr> ri_inventory_item_id = or_empty (oi_inventory_item_id item),
                              ri_item_name = oi_item_name item,
                              ri_quantity = oi_quantity item,
                              ri_unit_price = oi_unit_price item \<rparr>))
                   xs)
                user_id d = (res, d')"
      by (meson surj_pair)
    from createReorderPurchaseOrder_writes[OF r] have
      "purchase_orders d' = purchase_orders d @
                 (case createPurchaseOrder c0
                         \<lparr> cpo_workspace_id = workspaceId,
                           cpo_supplier_id = fd_supplier_id formData,
                           cpo_status = Some Draft, cpo_notes = None,
                           cpo_order_date = None, cpo_expected_date = None,
                           cpo_created_by = user_id \<rparr> d of
                    Inl e \<Rightarrow> []
                  | Inr (order, d1) \<Rightarrow> [order])"
      by auto
    then show ?thesis
      using that r by (simp add: onSubmit_def split: sum.splits)
  qed
  from ne show "purchase_orders (snd (onSubmit c0 workspaceId user_id formData lines d))
          = purchase_orders (snd (onSubmit c0 workspaceId user_id formData others d))"
    by (simp add: w)
qed

theorem C7_order_total_witness:
  "totalAmount [widgets, gasket] = Finite (25 / 2)
   \<and> purchase_orders
        (snd (onSubmit (call_ok ''o1'' 20) ''w0'' (Some ''u1'') supplier_form
                [(call_ok ''l1'' 21, widgets)] stocked_db))
     = purchase_orders
         (snd (onSubmit (call_ok ''o1'' 20) ''w0'' (Some ''u1'') supplier_form
                 [(call_ok ''l1'' 21, widgets), (call_ok ''l2'' 22, gasket)] stocked_db))"
proof -
  have e: "exact_from 0 [widgets, gasket]"
    using doubles_exact by (simp add: widgets_def gasket_def)
  have n: "[(call_ok ''l1'' 21, widgets)] \<noteq> []
           \<and> [(call_ok ''l1'' 21, widgets), (call_ok ''l2'' 22, gasket)] \<noteq> []"
    by simp
  have t: "totalAmount [widgets, gasket] = Finite (25 / 2)"
    using C7_order_total[of "[widgets, gasket]"] e
    by (simp add: widgets_def gasket_def)
  have p: "purchase_orders
        (snd (onSubmit (call_ok ''o1'' 20) ''w0'' (Some ''u1'') supplier_form
                [(call_ok ''l1'' 21, widgets)] stocked_db))
     = purchase_orders
         (snd (onSubmit (call_ok ''o1'' 20) ''w0'' (Some ''u1'') supplier_form
                 [(call_ok ''l1'' 21, widgets), (call_ok ''l2'' 22, gasket)] stocked_db))"
    using C7_order_total[where lines = "[(call_ok ''l1'' 21, widgets)]"
        and others = "[(call_ok ''l1'' 21, widgets), (call_ok ''l2'' 22, gasket)]"] n
    by blast
  show ?thesis using t p by simp
qed

text \<open>
  The claim as stated fails: three units at 0.10 total 0.30000000000000004, the double
  5404319552844596 / 2^54, and not 3 * 0.10.
\<close>

theorem C7_counterexample:
  "totalAmount [bolts] = Finite (5404319552844596 / 2 ^ 54)
   \<and> (5404319552844596 / 2 ^ 54 :: rat) \<noteq> of_int (oi_quantity bolts) * (1 / 10)
   \<and> oi_unit_price bolts = Some (1 / 10)"
proof -
  have "totalAmount [bolts] = Finite (5404319552844596 / 2 ^ 54)"
    by code_simp
  moreover have "(5404319552844596 / 2 ^ 54 :: rat) \<noteq> of_int (oi_quantity bolts) * (1 / 10)"
    by (simp add: bolts_def)
  moreover have "oi_unit_price bolts = Some (1 / 10)"
    by (simp add: bolts_def)
  ultimately show ?thesis by simp
qed

section \<open>Suggested reorder quantities\<close>

lemma onSubmit_writes:
  "\<exists>orders written k.
      k \<le> length lines
      \<and> snd (onSubmit c0 workspaceId user_id formData lines d)
          = d\<lparr> purchase_orders := purchase_orders d @ orders,
                purchase_order_items := purchase_order_items d @ written \<rparr>
      \<and> map poi_quantity written = map (\<lambda>l. oi_quantity (snd l)) (take k lines)"
proof (cases "lines = []")
  case True
  then show ?thesis
    by (intro exI[of _ "[]"] exI[of _ 0]) (simp add: onSubmit_def)
next
  case False
  let ?items = "map (\<lambda>(c, item).
                        (c, \<lparr> ri_inventory_item_id = or_empty (oi_inventory_item_id item),
                              ri_item_name = oi_item_name item,
                              ri_quantity = oi_quantity item,
                              ri_unit_price = oi_unit_price item \<rparr>))
                   lines"
  obtain res d' where r: "createReorderPurchaseOrder c0 workspaceId (fd_supplier_id formData)
                ?items user_id d = (res, d')"
    by (meson surj_pair)
  from createReorderPurchaseOrder_writes[OF r] obtain k orders where k: "k \<le> length lines"
    "d' = d\<lparr> purchase_orders := purchase_orders d @ orders,
             purchase_order_items := purchase_order_items d @
               map (line_of (fresh_id c0)) (take k ?items) \<rparr>"
    by auto
  have s: "snd (onSubmit c0 workspaceId user_id formData lines d) = d'"
    using False r by (simp add: onSubmit_def split: sum.splits)
  have q: "map poi_quantity (map (line_of (fresh_id c0)) (take k ?items))
             = map (\<lambda>l. oi_quantity (snd l)) (take k lines)"
    by (simp add: take_map line_of_def case_prod_beta)
  show ?thesis
    using k s q
    by (intro exI[of _ orders] exI[of _ "map (line_of (fresh_id c0)) (take k ?items)"]
        exI[of _ k]) simp
qed

text \<open>
  C8 (amended). The quantity prefilled when one flagged item is reordered is
  max(1, min_quantity - quantity), and the user's edit of the line replaces it by
  max(1, qty). For the reorder email, max(1, min_quantity * 2 - quantity) is the
  suggestion shown with the quantity input; the request is sized by the modal's
  reorderQuantity, which is 10 when the modal opens and after it closes, whatever the
  item, and is what the user typed (1 for nothing or 0) afterwards. Neither computation
  writes: handleGenerate leaves the store as it is, and onSubmit adds at most one order and
  lines whose quantities are those of the form's order items, and changes no other row.
\<close>

theorem C8_suggested_reorder_quantity:
  "map oi_quantity (prefill_orderItems (Some item))
     = [max 1 (inv_min_quantity item - inv_quantity item)]
   \<and> map_option (map oi_quantity) (updateItemQty (prefill_orderItems (Some item)) 0 qty)
     = Some [max 1 qty]
   \<and> suggestedQty (Some item) = max 1 (inv_min_quantity item * 2 - inv_quantity item)
   \<and> map_option rq_reorderQuantity (fst (handleGenerate st (Some item) d))
     = Some (st_reorderQuantity st)
   \<and> map_option rq_reorderQuantity (fst (handleGenerate initial_state (Some item) d)) = Some 10
   \<and> map_option rq_reorderQuantity
        (fst (handleGenerate (change_reorderQuantity parsed st) (Some item) d))
     = Some (case parsed of None \<Rightarrow> 1 | Some n \<Rightarrow> if n = 0 then 1 else n)
   \<and> st_reorderQuantity (handleClose st) = 10
   \<and> snd (handleGenerate st chosen d) = d
   \<and> (\<exists>orders written k.
         k \<le> length lines
         \<and> snd (onSubmit c0 workspaceId user_id formData lines d)
             = d\<lparr> purchase_orders := purchase_orders d @ orders,
                   purchase_order_items := purchase_order_items d @ written \<rparr>
         \<and> map poi_quantity written = map (\<lambda>l. oi_quantity (snd l)) (take k lines))"
proof -
  have "snd (handleGenerate st chosen d) = d"
    by (simp add: handleGenerate_def split: option.splits)
  then show ?thesis
    using onSubmit_writes[of lines c0 workspaceId user_id formData d]
    by (simp add: prefill_orderItems_def suggestedQty_def updateItemQty_def handleGenerate_def
        initial_state_def change_reorderQuantity_def handleClose_def)
qed

text \<open>
  The claim as stated fails for the email: for the item with 2 in stock and a minimum of
  7 the suggestion is 12 and the request of the freshly opened modal asks for 10.
\<close>

theorem C8_counterexample:
  "suggestedQty (Some widget_item) = 12
   \<and> map_option rq_reorderQuantity (fst (handleGenerate initial_state (Some widget_item) stocked_db))
     = Some 10"
  by (simp add: suggestedQty_def handleGenerate_def initial_state_def widget_item_def
      embed_supplier_def widget_def inventory_item.defs InventoryItem.defs)

end
